theory Spec2Isabelle
  imports Complex_Main
begin

section \<open>The property backend and the effects of a solve\<close>

text \<open>
  The solvers of \<^verbatim>\<open>ad_htc_app.py\<close> compute with Python and numpy floats. The
  embedding idealises finite floats as real numbers (no rounding, no overflow) and keeps
  the special values numpy can produce (infinities, not-a-number) symbolic, see
  \<open>npfloat\<close> below.

  \<^verbatim>\<open>CP.PropsSI\<close> is an external library. It is a parameter of the model: a pure
  function from a query to either a value or a failure (the Python wrapper raises
  \<^verbatim>\<open>ValueError\<close> when the library has no valid number to return). The names of
  the properties are the strings of the source, one constructor for each.
\<close>

datatype param = Prop_H | Prop_S | Prop_D | Prop_T | Prop_P | Prop_Q | Prop_Pcrit

datatype fluid = Water | Air

datatype query =
    PropsSI_query param param real param real fluid
  | PropsSI_trivial_query param fluid
  | PropsSI_nonfinite_query param param real param fluid

datatype error = ValueError | ZeroDivisionError

type_synonym backend = "query \<Rightarrow> error + real"

text \<open>
  A computation takes the list of the queries made so far and returns its outcome
  together with the extended list. An exception is the value \<open>Inl\<close>; the queries made
  before it stay in the list.
\<close>

type_synonym 'a comp = "query list \<Rightarrow> (error + 'a) \<times> query list"

definition ok :: "'a \<Rightarrow> 'a comp" where
  "ok x = (\<lambda>qs. (Inr x, qs))"

definition raise :: "error \<Rightarrow> 'a comp" where
  "raise e = (\<lambda>qs. (Inl e, qs))"

definition andThen :: "'a comp \<Rightarrow> ('a \<Rightarrow> 'b comp) \<Rightarrow> 'b comp" where
  "andThen m f = (\<lambda>qs. case m qs of
       (Inl e, qs') \<Rightarrow> (Inl e, qs')
     | (Inr x, qs') \<Rightarrow> f x qs')"

text \<open>\<^verbatim>\<open>CP.PropsSI(out, name1, value1, name2, value2, fluid)\<close>\<close>

definition PropsSI :: "backend \<Rightarrow> param \<Rightarrow> param \<Rightarrow> real \<Rightarrow> param \<Rightarrow> real \<Rightarrow> fluid \<Rightarrow> real comp" where
  "PropsSI be out n1 v1 n2 v2 fl =
     (\<lambda>qs. (be (PropsSI_query out n1 v1 n2 v2 fl), qs @ [PropsSI_query out n1 v1 n2 v2 fl]))"

text \<open>\<^verbatim>\<open>CP.PropsSI('Pcrit', 'Water')\<close>: the two-argument form, a constant of the fluid.\<close>

definition PropsSI_trivial :: "backend \<Rightarrow> param \<Rightarrow> fluid \<Rightarrow> real comp" where
  "PropsSI_trivial be out fl =
     (\<lambda>qs. (be (PropsSI_trivial_query out fl), qs @ [PropsSI_trivial_query out fl]))"

text \<open>
  A call whose second value is an infinity or not-a-number: the library has no valid
  number to return and the wrapper raises \<^verbatim>\<open>ValueError\<close>. The call is made all
  the same, so it is recorded.
\<close>

definition PropsSI_nonfinite :: "param \<Rightarrow> param \<Rightarrow> real \<Rightarrow> param \<Rightarrow> fluid \<Rightarrow> 'a comp" where
  "PropsSI_nonfinite out n1 v1 n2 fl =
     (\<lambda>qs. (Inl ValueError, qs @ [PropsSI_nonfinite_query out n1 v1 n2 fl]))"

text \<open>Division of two Python floats: a zero divisor raises \<^verbatim>\<open>ZeroDivisionError\<close>.\<close>

definition py_div :: "real \<Rightarrow> real \<Rightarrow> real comp" where
  "py_div a b = (if b = 0 then raise ZeroDivisionError else ok (a / b))"

text \<open>A \<^verbatim>\<open>for\<close> loop (or list comprehension) collecting one value for each element.\<close>

fun for_each :: "('a \<Rightarrow> 'b comp) \<Rightarrow> 'a list \<Rightarrow> 'b list comp" where
  "for_each f [] = ok []"
| "for_each f (x # xs) = andThen (f x) (\<lambda>y. andThen (for_each f xs) (\<lambda>ys. ok (y # ys)))"

section \<open>numpy\<close>

text \<open>
  \<^verbatim>\<open>np.linspace(start, stop, num)\<close> with the default \<^verbatim>\<open>endpoint=True\<close>:
  \<open>num\<close> evenly spaced samples, the last one set to \<open>stop\<close> itself.
\<close>

definition linspace :: "real \<Rightarrow> real \<Rightarrow> nat \<Rightarrow> real list" where
  "linspace start stop num =
     (if num = 0 then []
      else if num = 1 then [start]
      else map (\<lambda>i. start + real i * ((stop - start) / real (num - 1))) [0..<num - 1] @ [stop])"

text \<open>
  numpy's float arithmetic does not raise: \<^verbatim>\<open>np.log\<close> of zero is \<open>-inf\<close>, of a
  negative number \<open>nan\<close>, and a division by zero gives an infinity or \<open>nan\<close>.
\<close>

datatype npfloat = Fin real | PInf | NInf | NaN

definition np_log :: "real \<Rightarrow> npfloat" where
  "np_log x = (if 0 < x then Fin (ln x) else if x = 0 then NInf else NaN)"

fun np_sub :: "npfloat \<Rightarrow> npfloat \<Rightarrow> npfloat" where
  "np_sub NaN _ = NaN"
| "np_sub _ NaN = NaN"
| "np_sub (Fin a) (Fin b) = Fin (a - b)"
| "np_sub (Fin a) PInf = NInf"
| "np_sub (Fin a) NInf = PInf"
| "np_sub PInf (Fin b) = PInf"
| "np_sub NInf (Fin b) = NInf"
| "np_sub PInf NInf = PInf"
| "np_sub NInf PInf = NInf"
| "np_sub PInf PInf = NaN"
| "np_sub NInf NInf = NaN"

text \<open>A zero divisor here is the difference of two equal numbers, that is \<open>+0.0\<close>.\<close>

fun np_div :: "npfloat \<Rightarrow> npfloat \<Rightarrow> npfloat" where
  "np_div NaN _ = NaN"
| "np_div _ NaN = NaN"
| "np_div (Fin a) (Fin b) =
     (if b \<noteq> 0 then Fin (a / b) else if a = 0 then NaN else if 0 < a then PInf else NInf)"
| "np_div (Fin a) PInf = Fin 0"
| "np_div (Fin a) NInf = Fin 0"
| "np_div PInf (Fin b) = (if 0 \<le> b then PInf else NInf)"
| "np_div NInf (Fin b) = (if 0 \<le> b then NInf else PInf)"
| "np_div PInf PInf = NaN"
| "np_div PInf NInf = NaN"
| "np_div NInf PInf = NaN"
| "np_div NInf NInf = NaN"

section \<open>The steam cycle\<close>

record state_table =
  labels :: "string list"
  T_C :: "real list"
  P_kPa :: "real list"
  h_kJ :: "real list"
  s_kJ :: "real list"

record steam_cycle =
  h_cycle :: "real list"
  s_cycle :: "real list"
  sf :: "real list"
  hf :: "real list"
  sg :: "real list"
  hg :: "real list"
  pump_w :: real
  boiler_q :: real
  turb_w :: real
  cond_q :: real
  net_w :: real
  eta :: real
  states :: state_table

text \<open>The body of the four list comprehensions over \<^verbatim>\<open>P_sat_arr\<close>.\<close>

definition sat_sample :: "backend \<Rightarrow> param \<Rightarrow> real \<Rightarrow> real \<Rightarrow> real comp" where
  "sat_sample be out q p = andThen (PropsSI be out Prop_P p Prop_Q q Water) (\<lambda>v. ok (v / 1000))"

text \<open>
  \<^verbatim>\<open>calculate_steam_cycle\<close>, statement by statement. The returned tuple is a record
  here. The local list \<^verbatim>\<open>T_states\<close> is not returned and is left out; its entries
  are those of \<open>T_C\<close> in \<^verbatim>\<open>states\<close>.
\<close>

definition calculate_steam_cycle ::
  "backend \<Rightarrow> real \<Rightarrow> real \<Rightarrow> real \<Rightarrow> real \<Rightarrow> real \<Rightarrow> steam_cycle comp" where
  "calculate_steam_cycle be P_cond_kPa P_boiler_kPa T_boiler_C pump_eff_pct turb_eff_pct =
    (let P1 = P_cond_kPa * 1000;
         P2 = P_boiler_kPa * 1000;
         T3 = T_boiler_C + 273.15;
         eta_p = pump_eff_pct / 100;
         eta_t = turb_eff_pct / 100 in
     andThen (PropsSI be Prop_H Prop_P P1 Prop_Q 0 Water) (\<lambda>h1.
     andThen (PropsSI be Prop_S Prop_P P1 Prop_Q 0 Water) (\<lambda>s1.
     andThen (PropsSI be Prop_D Prop_P P1 Prop_Q 0 Water) (\<lambda>d1.
     andThen (py_div 1 d1) (\<lambda>v1.
     andThen (PropsSI be Prop_T Prop_P P1 Prop_Q 0 Water) (\<lambda>T1K.
     let T1 = T1K - 273.15;
         h2s = h1 + v1 * (P2 - P1) in
     andThen (py_div (h2s - h1) eta_p) (\<lambda>dh2.
     let h2 = h1 + dh2 in
     andThen (PropsSI be Prop_S Prop_P P2 Prop_H h2 Water) (\<lambda>s2.
     andThen (PropsSI be Prop_T Prop_P P2 Prop_H h2 Water) (\<lambda>T2K.
     let T2 = T2K - 273.15 in
     andThen (PropsSI be Prop_H Prop_P P2 Prop_T T3 Water) (\<lambda>h3.
     andThen (PropsSI be Prop_S Prop_P P2 Prop_T T3 Water) (\<lambda>s3.
     andThen (PropsSI be Prop_H Prop_P P1 Prop_S s3 Water) (\<lambda>h4s.
     let h4 = h3 - (h3 - h4s) * eta_t in
     andThen (PropsSI be Prop_S Prop_P P1 Prop_H h4 Water) (\<lambda>s4.
     andThen (PropsSI be Prop_T Prop_P P1 Prop_H h4 Water) (\<lambda>T4K.
     let T4 = T4K - 273.15 in
     andThen (PropsSI_trivial be Prop_Pcrit Water) (\<lambda>pcrit.
     let P_sat_arr = linspace 700 (pcrit * 0.9995) 300 in
     andThen (for_each (sat_sample be Prop_H 0) P_sat_arr) (\<lambda>hf.
     andThen (for_each (sat_sample be Prop_S 0) P_sat_arr) (\<lambda>sf.
     andThen (for_each (sat_sample be Prop_H 1) P_sat_arr) (\<lambda>hg.
     andThen (for_each (sat_sample be Prop_S 1) P_sat_arr) (\<lambda>sg.
     let h_cycle = map (\<lambda>x. x / 1000) [h1, h2, h3, h4, h1];
         s_cycle = map (\<lambda>x. x / 1000) [s1, s2, s3, s4, s1];
         pump_w = (h2 - h1) / 1000;
         boiler_q = (h3 - h2) / 1000;
         turb_w = (h3 - h4) / 1000;
         cond_q = (h4 - h1) / 1000;
         net_w = turb_w - pump_w in
     andThen (py_div net_w boiler_q) (\<lambda>ratio.
     let eta = ratio * 100;
         states = \<lparr> labels = [''1 (Cond Out)'', ''2 (Pump Out)'', ''3 (Turb In)'', ''4 (Turb Out)''],
                    T_C = [T1, T2, T_boiler_C, T4],
                    P_kPa = [P_cond_kPa, P_boiler_kPa, P_boiler_kPa, P_cond_kPa],
                    h_kJ = [h1 / 1000, h2 / 1000, h3 / 1000, h4 / 1000],
                    s_kJ = [s1 / 1000, s2 / 1000, s3 / 1000, s4 / 1000] \<rparr> in
     ok \<lparr> h_cycle = h_cycle, s_cycle = s_cycle, sf = sf, hf = hf, sg = sg, hg = hg,
          pump_w = pump_w, boiler_q = boiler_q, turb_w = turb_w, cond_q = cond_q,
          net_w = net_w, eta = eta, states = states \<rparr>))))))))))))))))))))"

section \<open>The gas cycle\<close>

text \<open>
  The result of \<^verbatim>\<open>calculate_gas_cycle_THdot\<close>. The dictionary \<^verbatim>\<open>traces\<close>
  keeps its insertion order: name, then the arrays \<open>H\<close> and \<open>T\<close> of the leg and its
  colour. \<^verbatim>\<open>state_labels\<close>, four formatted captions for the chart, is left out.
\<close>

record gas_cycle =
  traces :: "(string \<times> real list \<times> real list \<times> string) list"
  h_states :: "real list"
  T_states :: "real list"
  comp_w :: real
  heat_in :: real
  turb_w :: real
  net_w :: real
  bwr :: real
  eta :: real
  states :: state_table

text \<open>
  The body of the loop over \<^verbatim>\<open>P_12\<close>. \<^verbatim>\<open>frac\<close> is a numpy float; when
  it is an infinity or \<open>nan\<close>, so is \<^verbatim>\<open>h_i\<close> (an infinity times a number is an
  infinity or \<open>nan\<close>), and the query is made with it.
\<close>

definition compression_frac :: "real \<Rightarrow> real \<Rightarrow> real \<Rightarrow> npfloat" where
  "compression_frac P1 P2 P_i =
     np_div (np_sub (np_log P_i) (np_log P1)) (np_sub (np_log P2) (np_log P1))"

definition compression_sample ::
  "backend \<Rightarrow> real \<Rightarrow> real \<Rightarrow> real \<Rightarrow> real \<Rightarrow> real \<Rightarrow> real \<Rightarrow> (real \<times> real) comp" where
  "compression_sample be P1 P2 h1 h2 m_dot P_i =
     (case compression_frac P1 P2 P_i of
        Fin frac_i \<Rightarrow>
          (let h_i = h1 + frac_i * (h2 - h1) in
           andThen (PropsSI be Prop_T Prop_P P_i Prop_H h_i Air) (\<lambda>TK.
           let T_i = TK - 273.15 in
           ok ((h_i - h1) * m_dot / 1000, T_i)))
      | _ \<Rightarrow> PropsSI_nonfinite Prop_T Prop_P P_i Prop_H Air)"

text \<open>The body of the loops over \<^verbatim>\<open>T_23_arr\<close> (at \<open>P2\<close>) and \<^verbatim>\<open>T_41_arr\<close> (at \<open>P1\<close>).\<close>

definition isobaric_sample ::
  "backend \<Rightarrow> real \<Rightarrow> real \<Rightarrow> real \<Rightarrow> real \<Rightarrow> (real \<times> real) comp" where
  "isobaric_sample be Pconst h1 m_dot T_i =
     andThen (PropsSI be Prop_H Prop_P Pconst Prop_T T_i Air) (\<lambda>h_i.
     ok ((h_i - h1) * m_dot / 1000, T_i - 273.15))"

text \<open>The body of the loop over \<^verbatim>\<open>P_34\<close>.\<close>

definition expansion_frac :: "real \<Rightarrow> real \<Rightarrow> real \<Rightarrow> npfloat" where
  "expansion_frac P1 P2 P_i =
     np_div (np_sub (np_log P2) (np_log P_i)) (np_sub (np_log P2) (np_log P1))"

definition expansion_sample ::
  "backend \<Rightarrow> real \<Rightarrow> real \<Rightarrow> real \<Rightarrow> real \<Rightarrow> real \<Rightarrow> real \<Rightarrow> real \<Rightarrow> (real \<times> real) comp" where
  "expansion_sample be P1 P2 h1 h3 h4 m_dot P_i =
     (case expansion_frac P1 P2 P_i of
        Fin frac_i \<Rightarrow>
          (let h_i = h3 - frac_i * (h3 - h4) in
           andThen (PropsSI be Prop_T Prop_P P_i Prop_H h_i Air) (\<lambda>TK.
           let T_i = TK - 273.15 in
           ok ((h_i - h1) * m_dot / 1000, T_i)))
      | _ \<Rightarrow> PropsSI_nonfinite Prop_T Prop_P P_i Prop_H Air)"

text \<open>
  The solver with the two sample counts \<^verbatim>\<open>N\<close> and \<^verbatim>\<open>N2\<close> of the source as
  parameters; the source fixes them to 60 and 80.
\<close>

definition calculate_gas_cycle_THdot_N ::
  "nat \<Rightarrow> nat \<Rightarrow> backend \<Rightarrow> real \<Rightarrow> real \<Rightarrow> real \<Rightarrow> real \<Rightarrow> real \<Rightarrow> real \<Rightarrow> gas_cycle comp" where
  "calculate_gas_cycle_THdot_N N N2 be pr T1_C T3_C eta_c eta_t m_dot =
    (let T1 = T1_C + 273.15;
         T3 = T3_C + 273.15;
         P1 = 101325;
         P2 = P1 * pr;
         ec = eta_c / 100;
         et = eta_t / 100 in
     andThen (PropsSI be Prop_H Prop_P P1 Prop_T T1 Air) (\<lambda>h1.
     andThen (PropsSI be Prop_S Prop_P P1 Prop_T T1 Air) (\<lambda>s1.
     andThen (PropsSI be Prop_H Prop_P P2 Prop_S s1 Air) (\<lambda>h2s.
     andThen (py_div (h2s - h1) ec) (\<lambda>dh2.
     let h2 = h1 + dh2 in
     andThen (PropsSI be Prop_T Prop_P P2 Prop_H h2 Air) (\<lambda>T2.
     andThen (PropsSI be Prop_S Prop_P P2 Prop_H h2 Air) (\<lambda>s2.
     andThen (PropsSI be Prop_H Prop_P P2 Prop_T T3 Air) (\<lambda>h3.
     andThen (PropsSI be Prop_S Prop_P P2 Prop_T T3 Air) (\<lambda>s3.
     andThen (PropsSI be Prop_H Prop_P P1 Prop_S s3 Air) (\<lambda>h4s.
     let h4 = h3 - (h3 - h4s) * et in
     andThen (PropsSI be Prop_T Prop_P P1 Prop_H h4 Air) (\<lambda>T4.
     andThen (PropsSI be Prop_S Prop_P P1 Prop_H h4 Air) (\<lambda>s4.
     let P_12 = linspace P1 P2 N in
     andThen (for_each (compression_sample be P1 P2 h1 h2 m_dot) P_12) (\<lambda>HT_12.
     let T_23_arr = linspace T2 T3 N2 in
     andThen (for_each (isobaric_sample be P2 h1 m_dot) T_23_arr) (\<lambda>HT_23.
     let P_34 = linspace P2 P1 N in
     andThen (for_each (expansion_sample be P1 P2 h1 h3 h4 m_dot) P_34) (\<lambda>HT_34.
     let T_41_arr = linspace T4 T1 N in
     andThen (for_each (isobaric_sample be P1 h1 m_dot) T_41_arr) (\<lambda>HT_41.
     let comp_w = (h2 - h1) * m_dot / 1000;
         heat_in = (h3 - h2) * m_dot / 1000;
         turb_w = (h3 - h4) * m_dot / 1000;
         net_w = turb_w - comp_w in
     andThen (py_div comp_w turb_w) (\<lambda>ratio_b.
     let bwr = ratio_b * 100 in
     andThen (py_div net_w heat_in) (\<lambda>ratio_e.
     let eta = ratio_e * 100;
         T_states = [T1_C, T2 - 273.15, T3_C, T4 - 273.15];
         h_states = [0, (h2 - h1) * m_dot / 1000, (h3 - h1) * m_dot / 1000, (h4 - h1) * m_dot / 1000];
         states = \<lparr> labels = [''1 (Comp In)'', ''2 (Comp Out)'', ''3 (Turb In)'', ''4 (Turb Out)''],
                    T_C = [T1_C, T2 - 273.15, T3_C, T4 - 273.15],
                    P_kPa = [P1 / 1000, P2 / 1000, P2 / 1000, P1 / 1000],
                    h_kJ = [h1 / 1000, h2 / 1000, h3 / 1000, h4 / 1000],
                    s_kJ = [s1 / 1000, s2 / 1000, s3 / 1000, s4 / 1000] \<rparr>;
         traces = [(''1-2 Compression'', map fst HT_12, map snd HT_12, ''#f39c12''),
                   (''2-3 Combustion'', map fst HT_23, map snd HT_23, ''#e74c3c''),
                   (''3-4 Expansion'', map fst HT_34, map snd HT_34, ''#9b59b6''),
                   (''4-1 Heat Rejection'', map fst HT_41, map snd HT_41, ''#3498db'')] in
     ok \<lparr> traces = traces, h_states = h_states, T_states = T_states,
          comp_w = comp_w, heat_in = heat_in, gas_cycle.turb_w = turb_w,
          gas_cycle.net_w = net_w, bwr = bwr, gas_cycle.eta = eta,
          gas_cycle.states = states \<rparr>))))))))))))))))))"

text \<open>
  \<^verbatim>\<open>calculate_gas_cycle_THdot\<close>; the default \<^verbatim>\<open>m_dot=1.0\<close> of the source is an
  explicit argument.
\<close>

definition calculate_gas_cycle_THdot ::
  "backend \<Rightarrow> real \<Rightarrow> real \<Rightarrow> real \<Rightarrow> real \<Rightarrow> real \<Rightarrow> real \<Rightarrow> gas_cycle comp" where
  "calculate_gas_cycle_THdot = calculate_gas_cycle_THdot_N 60 80"

section \<open>The biomass router\<close>

definition biomass_outputs :: "real \<Rightarrow> real \<Rightarrow> real \<Rightarrow> real \<Rightarrow> real \<times> real \<times> real \<times> real \<times> real" where
  "biomass_outputs m_total moist_pct ad_eff_pct htc_conv_pct =
    (let m_rich = m_total * moist_pct / 100;
         m_lean = m_total * (1 - moist_pct / 100);
         m_bio = m_total * ad_eff_pct / 100;
         m_char = m_lean * htc_conv_pct / 100;
         m_vol = m_lean * (1 - htc_conv_pct / 100) in
     (m_rich, m_lean, m_bio, m_char, m_vol))"

section \<open>The presentation layer\<close>

text \<open>
  The dashboard shows an efficiency as \<^verbatim>\<open>max(0, eff_g)\<close> and \<^verbatim>\<open>max(0, eff_s)\<close>
  (formatted to one or two decimals, which is left out here).
\<close>

definition display_eff :: "real \<Rightarrow> real" where
  "display_eff eff = max 0 eff"

section \<open>Reading a result\<close>

text \<open>
  The arrays \<open>H\<close> and \<open>T\<close> of the \<open>k\<close>-th leg in \<^verbatim>\<open>traces\<close> (0: compression,
  1: combustion, 2: expansion, 3: heat rejection).
\<close>

definition leg_H :: "gas_cycle \<Rightarrow> nat \<Rightarrow> real list" where
  "leg_H g k = fst (snd (traces g ! k))"

definition leg_T :: "gas_cycle \<Rightarrow> nat \<Rightarrow> real list" where
  "leg_T g k = fst (snd (snd (traces g ! k)))"

text \<open>
  A computation that only ever appends to the list of queries, at most \<open>k\<close> of them,
  whatever its outcome.
\<close>

definition appends :: "'a comp \<Rightarrow> nat \<Rightarrow> bool" where
  "appends m k = (\<forall>qs. \<exists>rest. snd (m qs) = qs @ rest \<and> length rest \<le> k)"

section \<open>Notions of the specification\<close>

text \<open>
  The logarithmic interpolation of a pressure between \<open>Pa\<close> and \<open>Pb\<close> at the fractional
  position \<open>f\<close> (linear in the logarithm of the pressure), and the linear interpolation of
  an enthalpy.
\<close>

definition log_pressure_interp :: "real \<Rightarrow> real \<Rightarrow> real \<Rightarrow> real" where
  "log_pressure_interp Pa Pb f = exp (ln Pa + f * (ln Pb - ln Pa))"

definition linear_interp :: "real \<Rightarrow> real \<Rightarrow> real \<Rightarrow> real" where
  "linear_interp a b f = a + f * (b - a)"

text \<open>
  The linearised incompressible approximation of an ideal outlet enthalpy, and the actual
  outlet enthalpy of a pump or compressor of efficiency \<open>\<eta>\<close>.
\<close>

definition incompressible_ideal_outlet :: "real \<Rightarrow> real \<Rightarrow> real \<Rightarrow> real \<Rightarrow> real" where
  "incompressible_ideal_outlet h_in v_in P_in P_out = h_in + v_in * (P_out - P_in)"

definition actual_outlet :: "real \<Rightarrow> real \<Rightarrow> real \<Rightarrow> real" where
  "actual_outlet h_in h_ideal \<eta> = h_in + (h_ideal - h_in) / \<eta>"

section \<open>Backends to run the solvers on\<close>

text \<open>
  A backend with linear property relations (a constant heat capacity of 1000 J/(kg K)),
  simple enough to evaluate the solvers on concrete inputs.
\<close>

definition toy_backend :: backend where
  "toy_backend query =
     (case query of
        PropsSI_query out n1 p n2 v fl \<Rightarrow>
          if n1 \<noteq> Prop_P then Inl ValueError
          else if out = Prop_H \<and> n2 = Prop_T then Inr (1000 * v)
          else if out = Prop_S \<and> n2 = Prop_T then Inr (v / 100 - p / 1000000)
          else if out = Prop_D \<and> n2 = Prop_T then Inr (p / (287 * v))
          else if out = Prop_T \<and> n2 = Prop_H then Inr (v / 1000)
          else if out = Prop_S \<and> n2 = Prop_H then Inr (v / 100000 - p / 1000000)
          else if out = Prop_H \<and> n2 = Prop_S then Inr (100000 * v + p / 10)
          else if out = Prop_T \<and> n2 = Prop_Q then Inr (300 + p / 100000)
          else if out = Prop_H \<and> n2 = Prop_Q then Inr (300000 + p / 100 + 2000000 * v)
          else if out = Prop_S \<and> n2 = Prop_Q then Inr (3 + p / 10000000 + 5 * v)
          else if out = Prop_D \<and> n2 = Prop_Q then Inr (1000 - 990 * v)
          else Inl ValueError
      | PropsSI_trivial_query out fl \<Rightarrow>
          if out = Prop_Pcrit then Inr 22064000 else Inl ValueError
      | PropsSI_nonfinite_query out n1 p n2 fl \<Rightarrow> Inl ValueError)"



section \<open>Running a computation\<close>

lemma andThen_Inr_iff:
  "andThen m f qs = (Inr y, qs') \<longleftrightarrow> (\<exists>x l. m qs = (Inr x, l) \<and> f x l = (Inr y, qs'))"
  by (auto simp: andThen_def split: prod.splits sum.splits)

lemma ok_Inr_iff: "ok x qs = (Inr y, qs') \<longleftrightarrow> y = x \<and> qs' = qs"
  by (auto simp: ok_def)

lemma PropsSI_Inr_iff:
  "PropsSI be out n1 v1 n2 v2 fl qs = (Inr v, qs') \<longleftrightarrow>
     be (PropsSI_query out n1 v1 n2 v2 fl) = Inr v \<and> qs' = qs @ [PropsSI_query out n1 v1 n2 v2 fl]"
  by (auto simp: PropsSI_def)

lemma PropsSI_trivial_Inr_iff:
  "PropsSI_trivial be out fl qs = (Inr v, qs') \<longleftrightarrow>
     be (PropsSI_trivial_query out fl) = Inr v \<and> qs' = qs @ [PropsSI_trivial_query out fl]"
  by (auto simp: PropsSI_trivial_def)

lemma PropsSI_nonfinite_Inr_iff:
  "PropsSI_nonfinite out n1 v1 n2 fl qs = (Inr v, qs') \<longleftrightarrow> False"
  by (simp add: PropsSI_nonfinite_def)

lemma py_div_Inr_iff:
  "py_div a b qs = (Inr v, qs') \<longleftrightarrow> b \<noteq> 0 \<and> v = a / b \<and> qs' = qs"
  by (auto simp: py_div_def ok_def raise_def)

lemmas Inr_iffs = andThen_Inr_iff ok_Inr_iff PropsSI_Inr_iff PropsSI_trivial_Inr_iff
  PropsSI_nonfinite_Inr_iff py_div_Inr_iff

lemma run_Inr: "fst (m qs) = Inr r \<Longrightarrow> m qs = (Inr r, snd (m qs))"
  by (cases "m qs") simp


lemma andThen_InrE:
  assumes "andThen m f qs = (Inr y, qs')"
  obtains x l where "m qs = (Inr x, l)" and "f x l = (Inr y, qs')"
  using assms by (auto simp: andThen_Inr_iff)

lemma steam_cycle_InrE:
  assumes "calculate_steam_cycle be P_cond_kPa P_boiler_kPa T_boiler_C pump_eff_pct turb_eff_pct qs = (Inr r, qs')"
  obtains h1 s1 d1 T1K h2 s2 T2K h3 s3 h4s h4 s4 T4K pcrit hf' sf' hg' sg' l1 l2 l3 l4 where
    "be (PropsSI_query Prop_H Prop_P (P_cond_kPa * 1000) Prop_Q 0 Water) = Inr h1"
    "be (PropsSI_query Prop_S Prop_P (P_cond_kPa * 1000) Prop_Q 0 Water) = Inr s1"
    "be (PropsSI_query Prop_D Prop_P (P_cond_kPa * 1000) Prop_Q 0 Water) = Inr d1"
    "d1 \<noteq> 0"
    "be (PropsSI_query Prop_T Prop_P (P_cond_kPa * 1000) Prop_Q 0 Water) = Inr T1K"
    "pump_eff_pct / 100 \<noteq> 0"
    "h1 + (h1 + 1 / d1 * (P_boiler_kPa * 1000 - P_cond_kPa * 1000) - h1) / (pump_eff_pct / 100) = h2"
    "be (PropsSI_query Prop_S Prop_P (P_boiler_kPa * 1000) Prop_H h2 Water) = Inr s2"
    "be (PropsSI_query Prop_T Prop_P (P_boiler_kPa * 1000) Prop_H h2 Water) = Inr T2K"
    "be (PropsSI_query Prop_H Prop_P (P_boiler_kPa * 1000) Prop_T (T_boiler_C + 273.15) Water) = Inr h3"
    "be (PropsSI_query Prop_S Prop_P (P_boiler_kPa * 1000) Prop_T (T_boiler_C + 273.15) Water) = Inr s3"
    "be (PropsSI_query Prop_H Prop_P (P_cond_kPa * 1000) Prop_S s3 Water) = Inr h4s"
    "h3 - (h3 - h4s) * (turb_eff_pct / 100) = h4"
    "be (PropsSI_query Prop_S Prop_P (P_cond_kPa * 1000) Prop_H h4 Water) = Inr s4"
    "be (PropsSI_query Prop_T Prop_P (P_cond_kPa * 1000) Prop_H h4 Water) = Inr T4K"
    "be (PropsSI_trivial_query Prop_Pcrit Water) = Inr pcrit"
    "for_each (sat_sample be Prop_H 0) (linspace 700 (pcrit * 0.9995) 300) l1 = (Inr hf', l2)"
    "for_each (sat_sample be Prop_S 0) (linspace 700 (pcrit * 0.9995) 300) l2 = (Inr sf', l3)"
    "for_each (sat_sample be Prop_H 1) (linspace 700 (pcrit * 0.9995) 300) l3 = (Inr hg', l4)"
    "for_each (sat_sample be Prop_S 1) (linspace 700 (pcrit * 0.9995) 300) l4 = (Inr sg', qs')"
    "(h3 - h2) / 1000 \<noteq> 0"
    "r = \<lparr> h_cycle = map (\<lambda>x. x / 1000) [h1, h2, h3, h4, h1],
           s_cycle = map (\<lambda>x. x / 1000) [s1, s2, s3, s4, s1],
           sf = sf', hf = hf', sg = sg', hg = hg',
           pump_w = (h2 - h1) / 1000, boiler_q = (h3 - h2) / 1000,
           steam_cycle.turb_w = (h3 - h4) / 1000, cond_q = (h4 - h1) / 1000,
           steam_cycle.net_w = (h3 - h4) / 1000 - (h2 - h1) / 1000,
           steam_cycle.eta = ((h3 - h4) / 1000 - (h2 - h1) / 1000) / ((h3 - h2) / 1000) * 100,
           steam_cycle.states =
             \<lparr> labels = [''1 (Cond Out)'', ''2 (Pump Out)'', ''3 (Turb In)'', ''4 (Turb Out)''],
               T_C = [T1K - 273.15, T2K - 273.15, T_boiler_C, T4K - 273.15],
               P_kPa = [P_cond_kPa, P_boiler_kPa, P_boiler_kPa, P_cond_kPa],
               h_kJ = [h1 / 1000, h2 / 1000, h3 / 1000, h4 / 1000],
               s_kJ = [s1 / 1000, s2 / 1000, s3 / 1000, s4 / 1000] \<rparr> \<rparr>"
    "l1 = qs @ [PropsSI_query Prop_H Prop_P (P_cond_kPa * 1000) Prop_Q 0 Water,
               PropsSI_query Prop_S Prop_P (P_cond_kPa * 1000) Prop_Q 0 Water,
               PropsSI_query Prop_D Prop_P (P_cond_kPa * 1000) Prop_Q 0 Water,
               PropsSI_query Prop_T Prop_P (P_cond_kPa * 1000) Prop_Q 0 Water,
               PropsSI_query Prop_S Prop_P (P_boiler_kPa * 1000) Prop_H h2 Water,
               PropsSI_query Prop_T Prop_P (P_boiler_kPa * 1000) Prop_H h2 Water,
               PropsSI_query Prop_H Prop_P (P_boiler_kPa * 1000) Prop_T (T_boiler_C + 273.15) Water,
               PropsSI_query Prop_S Prop_P (P_boiler_kPa * 1000) Prop_T (T_boiler_C + 273.15) Water,
               PropsSI_query Prop_H Prop_P (P_cond_kPa * 1000) Prop_S s3 Water,
               PropsSI_query Prop_S Prop_P (P_cond_kPa * 1000) Prop_H h4 Water,
               PropsSI_query Prop_T Prop_P (P_cond_kPa * 1000) Prop_H h4 Water,
               PropsSI_trivial_query Prop_Pcrit Water]"
  using assms unfolding calculate_steam_cycle_def Let_def
  apply (elim andThen_InrE)
  apply (simp only: PropsSI_Inr_iff PropsSI_trivial_Inr_iff py_div_Inr_iff ok_Inr_iff)
  apply (elim conjE)
  apply (rule that)
  apply (assumption | rule refl | simp (no_asm_simp) only: append_assoc append.simps)+
  done


lemma gas_cycle_InrE:
  assumes "calculate_gas_cycle_THdot_N N N2 be pr T1_C T3_C eta_c eta_t m_dot qs = (Inr g, qs')"
  obtains h1 s1 h2s h2 T2 s2 h3 s3 h4s h4 T4 s4 HT_12 HT_23 HT_34 HT_41 l1 l2 l3 l4 where
    "be (PropsSI_query Prop_H Prop_P 101325 Prop_T (T1_C + 273.15) Air) = Inr h1"
    "be (PropsSI_query Prop_S Prop_P 101325 Prop_T (T1_C + 273.15) Air) = Inr s1"
    "be (PropsSI_query Prop_H Prop_P (101325 * pr) Prop_S s1 Air) = Inr h2s"
    "eta_c / 100 \<noteq> 0"
    "h1 + (h2s - h1) / (eta_c / 100) = h2"
    "be (PropsSI_query Prop_T Prop_P (101325 * pr) Prop_H h2 Air) = Inr T2"
    "be (PropsSI_query Prop_S Prop_P (101325 * pr) Prop_H h2 Air) = Inr s2"
    "be (PropsSI_query Prop_H Prop_P (101325 * pr) Prop_T (T3_C + 273.15) Air) = Inr h3"
    "be (PropsSI_query Prop_S Prop_P (101325 * pr) Prop_T (T3_C + 273.15) Air) = Inr s3"
    "be (PropsSI_query Prop_H Prop_P 101325 Prop_S s3 Air) = Inr h4s"
    "h3 - (h3 - h4s) * (eta_t / 100) = h4"
    "be (PropsSI_query Prop_T Prop_P 101325 Prop_H h4 Air) = Inr T4"
    "be (PropsSI_query Prop_S Prop_P 101325 Prop_H h4 Air) = Inr s4"
    "for_each (compression_sample be 101325 (101325 * pr) h1 h2 m_dot)
       (linspace 101325 (101325 * pr) N) l1 = (Inr HT_12, l2)"
    "for_each (isobaric_sample be (101325 * pr) h1 m_dot)
       (linspace T2 (T3_C + 273.15) N2) l2 = (Inr HT_23, l3)"
    "for_each (expansion_sample be 101325 (101325 * pr) h1 h3 h4 m_dot)
       (linspace (101325 * pr) 101325 N) l3 = (Inr HT_34, l4)"
    "for_each (isobaric_sample be 101325 h1 m_dot)
       (linspace T4 (T1_C + 273.15) N) l4 = (Inr HT_41, qs')"
    "(h3 - h4) * m_dot / 1000 \<noteq> 0"
    "(h3 - h2) * m_dot / 1000 \<noteq> 0"
    "g = \<lparr> traces = [(''1-2 Compression'', map fst HT_12, map snd HT_12, ''#f39c12''),
                      (''2-3 Combustion'', map fst HT_23, map snd HT_23, ''#e74c3c''),
                      (''3-4 Expansion'', map fst HT_34, map snd HT_34, ''#9b59b6''),
                      (''4-1 Heat Rejection'', map fst HT_41, map snd HT_41, ''#3498db'')],
           h_states = [0, (h2 - h1) * m_dot / 1000, (h3 - h1) * m_dot / 1000, (h4 - h1) * m_dot / 1000],
           T_states = [T1_C, T2 - 273.15, T3_C, T4 - 273.15],
           comp_w = (h2 - h1) * m_dot / 1000,
           heat_in = (h3 - h2) * m_dot / 1000,
           gas_cycle.turb_w = (h3 - h4) * m_dot / 1000,
           gas_cycle.net_w = (h3 - h4) * m_dot / 1000 - (h2 - h1) * m_dot / 1000,
           bwr = (h2 - h1) * m_dot / 1000 / ((h3 - h4) * m_dot / 1000) * 100,
           gas_cycle.eta = ((h3 - h4) * m_dot / 1000 - (h2 - h1) * m_dot / 1000) / ((h3 - h2) * m_dot / 1000) * 100,
           gas_cycle.states =
             \<lparr> labels = [''1 (Comp In)'', ''2 (Comp Out)'', ''3 (Turb In)'', ''4 (Turb Out)''],
               T_C = [T1_C, T2 - 273.15, T3_C, T4 - 273.15],
               P_kPa = [101325 / 1000, 101325 * pr / 1000, 101325 * pr / 1000, 101325 / 1000],
               h_kJ = [h1 / 1000, h2 / 1000, h3 / 1000, h4 / 1000],
               s_kJ = [s1 / 1000, s2 / 1000, s3 / 1000, s4 / 1000] \<rparr> \<rparr>"
    "l1 = qs @ [PropsSI_query Prop_H Prop_P 101325 Prop_T (T1_C + 273.15) Air,
               PropsSI_query Prop_S Prop_P 101325 Prop_T (T1_C + 273.15) Air,
               PropsSI_query Prop_H Prop_P (101325 * pr) Prop_S s1 Air,
               PropsSI_query Prop_T Prop_P (101325 * pr) Prop_H h2 Air,
               PropsSI_query Prop_S Prop_P (101325 * pr) Prop_H h2 Air,
               PropsSI_query Prop_H Prop_P (101325 * pr) Prop_T (T3_C + 273.15) Air,
               PropsSI_query Prop_S Prop_P (101325 * pr) Prop_T (T3_C + 273.15) Air,
               PropsSI_query Prop_H Prop_P 101325 Prop_S s3 Air,
               PropsSI_query Prop_T Prop_P 101325 Prop_H h4 Air,
               PropsSI_query Prop_S Prop_P 101325 Prop_H h4 Air]"
  using assms unfolding calculate_gas_cycle_THdot_N_def Let_def
  apply (elim andThen_InrE)
  apply (simp only: PropsSI_Inr_iff PropsSI_trivial_Inr_iff py_div_Inr_iff ok_Inr_iff)
  apply (elim conjE)
  apply (rule that)
  apply (assumption | rule refl | simp (no_asm_simp) only: append_assoc append.simps)+
  done

subsection \<open>Loops\<close>

lemma for_each_InrD:
  assumes step: "\<And>x l y l'. f x l = (Inr y, l') \<Longrightarrow> l' = l @ [q x] \<and> R x y"
    and run: "for_each f xs qs = (Inr ys, qs')"
  shows "qs' = qs @ map q xs \<and> list_all2 R xs ys"
  using run
proof (induction xs arbitrary: qs ys qs')
  case Nil
  then show ?case by (simp add: ok_Inr_iff)
next
  case (Cons x xs)
  from Cons.prems obtain y l zs where
    fx: "f x qs = (Inr y, l)" and rest: "for_each f xs l = (Inr zs, qs')" and ys: "ys = y # zs"
    by (auto simp: andThen_Inr_iff ok_Inr_iff)
  from step [OF fx] Cons.IH [OF rest] ys show ?case by simp
qed

lemma for_each_InrI:
  assumes step: "\<And>x l. x \<in> set xs \<Longrightarrow> f x l = (Inr (r x), l @ [q x])"
  shows "for_each f xs qs = (Inr (map r xs), qs @ map q xs)"
  using step
proof (induction xs arbitrary: qs)
  case Nil
  then show ?case by (simp add: ok_def)
next
  case (Cons x xs)
  have "f x qs = (Inr (r x), qs @ [q x])" by (rule Cons.prems) simp
  moreover have "for_each f xs (qs @ [q x]) = (Inr (map r xs), (qs @ [q x]) @ map q xs)"
    by (rule Cons.IH) (simp add: Cons.prems)
  ultimately show ?case by (simp add: andThen_def ok_def)
qed

subsection \<open>linspace\<close>

lemma length_linspace [simp]: "length (linspace a b n) = n"
  by (simp add: linspace_def)

lemma linspace_nth:
  assumes "2 \<le> n" "i < n"
  shows "linspace a b n ! i = a + real i * ((b - a) / real (n - 1))"
proof (cases "i = n - 1")
  case True
  with assms show ?thesis by (simp add: linspace_def nth_append)
next
  case False
  with assms have "i < n - 1" by simp
  with assms show ?thesis by (simp add: linspace_def nth_append)
qed

lemma linspace_first: "2 \<le> n \<Longrightarrow> linspace a b n ! 0 = a"
  by (simp add: linspace_nth)

lemma linspace_last: "2 \<le> n \<Longrightarrow> linspace a b n ! (n - 1) = b"
  by (simp add: linspace_def nth_append)

subsection \<open>The loop bodies on a backend that answers\<close>

lemma sat_sample_run:
  "sat_sample be out q p l =
     (case be (PropsSI_query out Prop_P p Prop_Q q Water) of
        Inl e \<Rightarrow> (Inl e, l @ [PropsSI_query out Prop_P p Prop_Q q Water])
      | Inr v \<Rightarrow> (Inr (v / 1000), l @ [PropsSI_query out Prop_P p Prop_Q q Water]))"
  by (simp add: sat_sample_def andThen_def PropsSI_def ok_def split: sum.splits)

lemma for_each_sat_sample_total:
  assumes "\<forall>p\<in>set ps. \<not> isl (be (PropsSI_query out Prop_P p Prop_Q q Water))"
  shows "for_each (sat_sample be out q) ps qs =
           (Inr (map (\<lambda>p. projr (be (PropsSI_query out Prop_P p Prop_Q q Water)) / 1000) ps),
            qs @ map (\<lambda>p. PropsSI_query out Prop_P p Prop_Q q Water) ps)"
proof (rule for_each_InrI)
  fix x l assume "x \<in> set ps"
  with assms have "\<not> isl (be (PropsSI_query out Prop_P x Prop_Q q Water))" by blast
  then show "sat_sample be out q x l =
      (Inr (projr (be (PropsSI_query out Prop_P x Prop_Q q Water)) / 1000),
       l @ [PropsSI_query out Prop_P x Prop_Q q Water])"
    by (cases "be (PropsSI_query out Prop_P x Prop_Q q Water)") (simp_all add: sat_sample_run)
qed

subsection \<open>Computations only append queries\<close>

lemma appends_ok: "appends (ok x) 0"
  by (simp add: appends_def ok_def)

lemma appends_raise: "appends (raise e) 0"
  by (simp add: appends_def raise_def)

lemma appends_py_div: "appends (py_div a b) 0"
  by (simp add: py_div_def appends_ok appends_raise)

lemma appends_PropsSI: "appends (PropsSI be out n1 v1 n2 v2 fl) 1"
  by (simp add: appends_def PropsSI_def)

lemma appends_PropsSI_trivial: "appends (PropsSI_trivial be out fl) 1"
  by (simp add: appends_def PropsSI_trivial_def)

lemma appends_PropsSI_nonfinite: "appends (PropsSI_nonfinite out n1 v1 n2 fl) 1"
  by (simp add: appends_def PropsSI_nonfinite_def)

lemma appends_le: "appends m k \<Longrightarrow> k \<le> k' \<Longrightarrow> appends m k'"
  by (meson appends_def le_trans)

lemma appends_andThen:
  assumes m: "appends m a" and f: "\<And>x. appends (f x) b"
  shows "appends (andThen m f) (a + b)"
  unfolding appends_def
proof
  fix qs
  from m obtain r1 where r1: "snd (m qs) = qs @ r1" "length r1 \<le> a"
    by (auto simp: appends_def)
  show "\<exists>rest. snd (andThen m f qs) = qs @ rest \<and> length rest \<le> a + b"
  proof (cases "fst (m qs)")
    case (Inl e)
    with r1 have "m qs = (Inl e, qs @ r1)" by (cases "m qs") simp
    with r1 show ?thesis by (simp add: andThen_def)
  next
    case (Inr x)
    with r1 have mq: "m qs = (Inr x, qs @ r1)" by (cases "m qs") simp
    from f [of x] have "\<exists>r2. snd (f x (qs @ r1)) = (qs @ r1) @ r2 \<and> length r2 \<le> b"
      unfolding appends_def by (rule spec)
    then obtain r2 where "snd (f x (qs @ r1)) = qs @ (r1 @ r2)" "length r2 \<le> b"
      by auto
    with mq r1 show ?thesis by (simp add: andThen_def)
  qed
qed

lemma appends_for_each:
  assumes "\<And>x. appends (f x) 1"
  shows "appends (for_each f xs) (length xs)"
proof (induction xs)
  case Nil
  show ?case by (simp add: appends_ok)
next
  case (Cons x xs)
  have "appends (andThen (f x) (\<lambda>y. andThen (for_each f xs) (\<lambda>ys. ok (y # ys)))) (1 + (length xs + 0))"
    by (rule appends_andThen assms Cons.IH appends_ok)+
  then show ?case by simp
qed

lemma appends_for_each_linspace:
  assumes "\<And>x. appends (f x) 1"
  shows "appends (for_each f (linspace a b n)) n"
  using appends_for_each [of f "linspace a b n", OF assms] by simp

lemma appends_sat_sample: "appends (sat_sample be out q p) 1"
  unfolding sat_sample_def
  apply (rule appends_le)
   apply (rule appends_andThen appends_PropsSI appends_ok)+
  apply simp
  done

lemma appends_isobaric_sample: "appends (isobaric_sample be Pconst h1 m_dot T_i) 1"
  unfolding isobaric_sample_def
  apply (rule appends_le)
   apply (rule appends_andThen appends_PropsSI appends_ok)+
  apply simp
  done

lemma appends_compression_sample: "appends (compression_sample be P1 P2 h1 h2 m_dot P_i) 1"
proof (cases "compression_frac P1 P2 P_i")
  case (Fin f)
  have "appends (andThen (PropsSI be Prop_T Prop_P P_i Prop_H (h1 + f * (h2 - h1)) Air)
          (\<lambda>TK. ok ((h1 + f * (h2 - h1) - h1) * m_dot / 1000, TK - 273.15))) (1 + 0)"
    by (rule appends_andThen appends_PropsSI appends_ok)+
  with Fin show ?thesis by (simp add: compression_sample_def Let_def)
qed (simp_all add: compression_sample_def appends_PropsSI_nonfinite del: One_nat_def)

lemma appends_expansion_sample: "appends (expansion_sample be P1 P2 h1 h3 h4 m_dot P_i) 1"
proof (cases "expansion_frac P1 P2 P_i")
  case (Fin f)
  have "appends (andThen (PropsSI be Prop_T Prop_P P_i Prop_H (h3 - f * (h3 - h4)) Air)
          (\<lambda>TK. ok ((h3 - f * (h3 - h4) - h1) * m_dot / 1000, TK - 273.15))) (1 + 0)"
    by (rule appends_andThen appends_PropsSI appends_ok)+
  with Fin show ?thesis by (simp add: expansion_sample_def Let_def)
qed (simp_all add: expansion_sample_def appends_PropsSI_nonfinite del: One_nat_def)

lemmas appends_intros =
  appends_andThen appends_ok appends_raise appends_py_div appends_PropsSI
  appends_PropsSI_trivial appends_for_each_linspace appends_sat_sample
  appends_isobaric_sample appends_compression_sample appends_expansion_sample

lemma appends_steam:
  "appends (calculate_steam_cycle be P_cond_kPa P_boiler_kPa T_boiler_C pump_eff_pct turb_eff_pct) 1212"
  unfolding calculate_steam_cycle_def Let_def
  apply (rule appends_le)
   apply (rule appends_intros)+
  apply simp
  done

lemma appends_gas:
  "appends (calculate_gas_cycle_THdot_N N N2 be pr T1_C T3_C eta_c eta_t m_dot) (10 + 3 * N + N2)"
  unfolding calculate_gas_cycle_THdot_N_def Let_def
  apply (rule appends_le)
   apply (rule appends_intros)+
  apply simp
  done


subsection \<open>The fraction along a leg\<close>

lemma compression_frac_pos:
  assumes "0 < P1" "0 < P2" "P1 \<noteq> P2" "0 < P_i"
  shows "compression_frac P1 P2 P_i = Fin ((ln P_i - ln P1) / (ln P2 - ln P1))"
  using assms by (simp add: compression_frac_def np_log_def)

lemma expansion_frac_pos:
  assumes "0 < P1" "0 < P2" "P1 \<noteq> P2" "0 < P_i"
  shows "expansion_frac P1 P2 P_i = Fin ((ln P2 - ln P_i) / (ln P2 - ln P1))"
  using assms by (simp add: expansion_frac_def np_log_def)

lemma compression_frac_FinD:
  assumes "compression_frac P1 P2 P_i = Fin f"
  shows "0 < P_i \<and> 0 < P1 \<and>
         (0 < P2 \<and> P2 \<noteq> P1 \<and> f = (ln P_i - ln P1) / (ln P2 - ln P1) \<or> P2 = 0 \<and> f = 0)"
  using assms
  by (auto simp: compression_frac_def np_log_def split: if_splits)

lemma expansion_frac_FinD:
  assumes "expansion_frac P1 P2 P_i = Fin f"
  shows "0 < P_i \<and> 0 < P2 \<and>
         (0 < P1 \<and> P2 \<noteq> P1 \<and> f = (ln P2 - ln P_i) / (ln P2 - ln P1) \<or> P1 = 0 \<and> f = 0)"
  using assms
  by (auto simp: expansion_frac_def np_log_def split: if_splits)

lemma compression_frac_end:
  assumes "compression_frac P1 P2 P2 = Fin f"
  shows "0 < P1 \<and> 0 < P2 \<and> P1 \<noteq> P2 \<and> f = 1"
  using compression_frac_FinD [OF assms] by auto

lemma expansion_frac_end:
  assumes "expansion_frac P1 P2 P1 = Fin f" 
  shows "0 < P1 \<and> 0 < P2 \<and> P1 \<noteq> P2 \<and> f = 1"
  using expansion_frac_FinD [OF assms] by auto

subsection \<open>One sample of a leg\<close>

lemma compression_sample_InrD:
  assumes "compression_sample be P1 P2 h1 h2 m_dot P_i l = (Inr y, l')"
  shows "\<exists>f. compression_frac P1 P2 P_i = Fin f \<and>
             be (PropsSI_query Prop_T Prop_P P_i Prop_H (h1 + f * (h2 - h1)) Air) = Inr (snd y + 273.15) \<and>
             fst y = (h1 + f * (h2 - h1) - h1) * m_dot / 1000 \<and>
             l' = l @ [PropsSI_query Prop_T Prop_P P_i Prop_H (h1 + f * (h2 - h1)) Air]"
  using assms
  by (cases "compression_frac P1 P2 P_i")
    (auto simp: compression_sample_def Let_def Inr_iffs)

lemma expansion_sample_InrD:
  assumes "expansion_sample be P1 P2 h1 h3 h4 m_dot P_i l = (Inr y, l')"
  shows "\<exists>f. expansion_frac P1 P2 P_i = Fin f \<and>
             be (PropsSI_query Prop_T Prop_P P_i Prop_H (h3 - f * (h3 - h4)) Air) = Inr (snd y + 273.15) \<and>
             fst y = (h3 - f * (h3 - h4) - h1) * m_dot / 1000 \<and>
             l' = l @ [PropsSI_query Prop_T Prop_P P_i Prop_H (h3 - f * (h3 - h4)) Air]"
  using assms
  by (cases "expansion_frac P1 P2 P_i")
    (auto simp: expansion_sample_def Let_def Inr_iffs)

lemma isobaric_sample_InrD:
  assumes "isobaric_sample be Pconst h1 m_dot T_i l = (Inr y, l')"
  shows "\<exists>h_i. be (PropsSI_query Prop_H Prop_P Pconst Prop_T T_i Air) = Inr h_i \<and>
             y = ((h_i - h1) * m_dot / 1000, T_i - 273.15) \<and>
             l' = l @ [PropsSI_query Prop_H Prop_P Pconst Prop_T T_i Air]"
  using assms by (auto simp: isobaric_sample_def Inr_iffs)

lemma sat_sample_InrD:
  assumes "sat_sample be out q p l = (Inr y, l')"
  shows "be (PropsSI_query out Prop_P p Prop_Q q Water) = Inr (y * 1000) \<and>
         l' = l @ [PropsSI_query out Prop_P p Prop_Q q Water]"
  using assms by (auto simp: sat_sample_def Inr_iffs)

lemma for_each_length:
  "for_each f xs qs = (Inr ys, qs') \<Longrightarrow> length ys = length xs"
  by (induction xs arbitrary: qs ys qs') (auto simp: Inr_iffs)

lemma for_each_nth:
  assumes "for_each f xs qs = (Inr ys, qs')" "i < length xs"
  shows "\<exists>l l'. f (xs ! i) l = (Inr (ys ! i), l')"
  using assms
proof (induction xs arbitrary: qs ys qs' i)
  case Nil
  then show ?case by simp
next
  case (Cons x xs)
  from Cons.prems obtain y l zs where
    fx: "f x qs = (Inr y, l)" and rest: "for_each f xs l = (Inr zs, qs')" and ys: "ys = y # zs"
    by (auto simp: Inr_iffs)
  show ?case
  proof (cases i)
    case 0
    with fx ys show ?thesis by auto
  next
    case (Suc j)
    with Cons.prems have "j < length xs" by simp
    from Cons.IH [OF rest this] Suc ys show ?thesis by simp
  qed
qed

subsection \<open>linspace, continued\<close>

lemma linspace_mem:
  assumes "2 \<le> n" "x \<in> set (linspace a b n)"
  shows "\<exists>i<n. x = a + real i * ((b - a) / real (n - 1))"
proof -
  from assms(2) obtain i where "i < n" "x = linspace a b n ! i"
    by (auto simp: in_set_conv_nth)
  with assms(1) show ?thesis by (auto simp: linspace_nth)
qed

lemma linspace_pos:
  assumes "0 < a" "0 < b" "x \<in> set (linspace a b n)"
  shows "0 < x"
proof (cases "2 \<le> n")
  case True
  from linspace_mem [OF True assms(3)] obtain i where i: "i < n"
    and x: "x = a + real i * ((b - a) / real (n - 1))" by blast
  define d where "d = real (n - 1)"
  define t where "t = real i / d"
  from True have d: "0 < d" by (simp add: d_def)
  from i have "i \<le> n - 1" by simp
  then have "real i \<le> d" unfolding d_def by (rule of_nat_mono)
  with d have t: "0 \<le> t" "t \<le> 1" by (simp_all add: t_def)
  from x d have "x = (1 - t) * a + t * b"
    unfolding d_def [symmetric] by (simp add: t_def field_simps)
  moreover have "0 < (1 - t) * a + t * b"
  proof (cases "t = 1")
    case True
    with assms show ?thesis by simp
  next
    case False
    with t have "0 < (1 - t) * a" using assms by simp
    moreover from t assms have "0 \<le> t * b" by simp
    ultimately show ?thesis by simp
  qed
  ultimately show ?thesis by simp
next
  case False
  with assms show ?thesis by (auto simp: linspace_def split: if_splits)
qed

lemma linspace_strict_mono:
  assumes "a < b" "2 \<le> n"
  shows "sorted_wrt (<) (linspace a b n)"
proof -
  have "linspace a b n ! i < linspace a b n ! j" if "i < j" "j < n" for i j
  proof -
    from that assms have "real i * ((b - a) / real (n - 1)) < real j * ((b - a) / real (n - 1))"
      by (intro mult_strict_right_mono) simp_all
    with that assms show ?thesis by (simp add: linspace_nth)
  qed
  then show ?thesis by (simp add: sorted_wrt_iff_nth_less)
qed

lemma for_each_isobaric_total:
  assumes "\<forall>T_i\<in>set Ts. \<not> isl (be (PropsSI_query Prop_H Prop_P Pconst Prop_T T_i Air))"
  shows "for_each (isobaric_sample be Pconst h1 m_dot) Ts qs =
           (Inr (map (\<lambda>T_i. ((projr (be (PropsSI_query Prop_H Prop_P Pconst Prop_T T_i Air)) - h1)
                                * m_dot / 1000, T_i - 273.15)) Ts),
            qs @ map (\<lambda>T_i. PropsSI_query Prop_H Prop_P Pconst Prop_T T_i Air) Ts)"
proof (rule for_each_InrI)
  fix x l assume "x \<in> set Ts"
  with assms have "\<not> isl (be (PropsSI_query Prop_H Prop_P Pconst Prop_T x Air))" by blast
  then show "isobaric_sample be Pconst h1 m_dot x l =
      (Inr ((projr (be (PropsSI_query Prop_H Prop_P Pconst Prop_T x Air)) - h1) * m_dot / 1000,
            x - 273.15),
       l @ [PropsSI_query Prop_H Prop_P Pconst Prop_T x Air])"
    by (cases "be (PropsSI_query Prop_H Prop_P Pconst Prop_T x Air)")
      (simp_all add: isobaric_sample_def andThen_def PropsSI_def ok_def)
qed

lemma for_each_compression_total:
  assumes P: "0 < P1" "0 < P2" "P1 \<noteq> P2"
    and be: "\<forall>p\<in>set (linspace P1 P2 N). \<not> isl (be (PropsSI_query Prop_T Prop_P p Prop_H
                 (h1 + (ln p - ln P1) / (ln P2 - ln P1) * (h2 - h1)) Air))"
  shows "for_each (compression_sample be P1 P2 h1 h2 m_dot) (linspace P1 P2 N) qs =
           (Inr (map (\<lambda>p. ((h1 + (ln p - ln P1) / (ln P2 - ln P1) * (h2 - h1) - h1) * m_dot / 1000,
                           projr (be (PropsSI_query Prop_T Prop_P p Prop_H
                             (h1 + (ln p - ln P1) / (ln P2 - ln P1) * (h2 - h1)) Air)) - 273.15))
                   (linspace P1 P2 N)),
            qs @ map (\<lambda>p. PropsSI_query Prop_T Prop_P p Prop_H
                             (h1 + (ln p - ln P1) / (ln P2 - ln P1) * (h2 - h1)) Air)
                   (linspace P1 P2 N))"
proof (rule for_each_InrI)
  fix x l assume mem: "x \<in> set (linspace P1 P2 N)"
  with P have x: "0 < x" by (auto intro: linspace_pos)
  let ?q = "PropsSI_query Prop_T Prop_P x Prop_H (h1 + (ln x - ln P1) / (ln P2 - ln P1) * (h2 - h1)) Air"
  from be mem have "\<not> isl (be ?q)" by blast
  then show "compression_sample be P1 P2 h1 h2 m_dot x l =
      (Inr ((h1 + (ln x - ln P1) / (ln P2 - ln P1) * (h2 - h1) - h1) * m_dot / 1000,
            projr (be ?q) - 273.15), l @ [?q])"
    by (cases "be ?q")
      (simp_all add: compression_sample_def compression_frac_pos [OF P x] Let_def
        andThen_def PropsSI_def ok_def)
qed

lemma for_each_expansion_total:
  assumes P: "0 < P1" "0 < P2" "P1 \<noteq> P2"
    and be: "\<forall>p\<in>set (linspace P2 P1 N). \<not> isl (be (PropsSI_query Prop_T Prop_P p Prop_H
                 (h3 - (ln P2 - ln p) / (ln P2 - ln P1) * (h3 - h4)) Air))"
  shows "for_each (expansion_sample be P1 P2 h1 h3 h4 m_dot) (linspace P2 P1 N) qs =
           (Inr (map (\<lambda>p. ((h3 - (ln P2 - ln p) / (ln P2 - ln P1) * (h3 - h4) - h1) * m_dot / 1000,
                           projr (be (PropsSI_query Prop_T Prop_P p Prop_H
                             (h3 - (ln P2 - ln p) / (ln P2 - ln P1) * (h3 - h4)) Air)) - 273.15))
                   (linspace P2 P1 N)),
            qs @ map (\<lambda>p. PropsSI_query Prop_T Prop_P p Prop_H
                             (h3 - (ln P2 - ln p) / (ln P2 - ln P1) * (h3 - h4)) Air)
                   (linspace P2 P1 N))"
proof (rule for_each_InrI)
  fix x l assume mem: "x \<in> set (linspace P2 P1 N)"
  with P have x: "0 < x" by (auto intro: linspace_pos)
  let ?q = "PropsSI_query Prop_T Prop_P x Prop_H (h3 - (ln P2 - ln x) / (ln P2 - ln P1) * (h3 - h4)) Air"
  from be mem have "\<not> isl (be ?q)" by blast
  then show "expansion_sample be P1 P2 h1 h3 h4 m_dot x l =
      (Inr ((h3 - (ln P2 - ln x) / (ln P2 - ln P1) * (h3 - h4) - h1) * m_dot / 1000,
            projr (be ?q) - 273.15), l @ [?q])"
    by (cases "be ?q")
      (simp_all add: expansion_sample_def expansion_frac_pos [OF P x] Let_def
        andThen_def PropsSI_def ok_def)
qed

lemmas run_simps = Let_def andThen_def PropsSI_def PropsSI_trivial_def py_div_def ok_def raise_def
  for_each_sat_sample_total for_each_isobaric_total for_each_compression_total
  for_each_expansion_total

subsection \<open>The solvers on the linear backend\<close>

lemma toy_steam_default:
  "\<not> isl (fst (calculate_steam_cycle toy_backend 10 2000 350 85 85 []))"
  by (simp add: calculate_steam_cycle_def run_simps toy_backend_def)

lemma toy_gas_default:
  "\<not> isl (fst (calculate_gas_cycle_THdot toy_backend 12 25 1100 88 90 1 []))"
  by (simp add: calculate_gas_cycle_THdot_def calculate_gas_cycle_THdot_N_def run_simps toy_backend_def)

lemma toy_steam_inverted:
  "\<not> isl (fst (calculate_steam_cycle toy_backend 2000 10 350 85 85 []))"
  by (simp add: calculate_steam_cycle_def run_simps toy_backend_def)



subsection \<open>The first queries of a solve\<close>

lemma for_each_extends:
  assumes "\<And>x. appends (f x) 1" and "for_each f xs l = (r, l')"
  shows "\<exists>rest. l' = l @ rest"
proof -
  from appends_for_each [of f xs, OF assms(1)]
  obtain rest where "snd (for_each f xs l) = l @ rest" unfolding appends_def by blast
  with assms(2) show ?thesis by simp
qed

lemma steam_cycle_log:
  assumes "calculate_steam_cycle be P_cond_kPa P_boiler_kPa T_boiler_C pump_eff_pct turb_eff_pct qs = (Inr r, qs')"
  shows "\<exists>rest. qs' = qs @
      [PropsSI_query Prop_H Prop_P (P_cond_kPa * 1000) Prop_Q 0 Water,
       PropsSI_query Prop_S Prop_P (P_cond_kPa * 1000) Prop_Q 0 Water,
       PropsSI_query Prop_D Prop_P (P_cond_kPa * 1000) Prop_Q 0 Water,
       PropsSI_query Prop_T Prop_P (P_cond_kPa * 1000) Prop_Q 0 Water,
       PropsSI_query Prop_S Prop_P (P_boiler_kPa * 1000) Prop_H (h_kJ (steam_cycle.states r) ! 1 * 1000) Water,
       PropsSI_query Prop_T Prop_P (P_boiler_kPa * 1000) Prop_H (h_kJ (steam_cycle.states r) ! 1 * 1000) Water] @ rest"
  using assms
  by (rule steam_cycle_InrE) (auto dest!: for_each_extends [OF appends_sat_sample])

lemma gas_cycle_log:
  assumes "calculate_gas_cycle_THdot_N N N2 be pr T1_C T3_C eta_c eta_t m_dot qs = (Inr g, qs')"
  shows "\<exists>rest. qs' = qs @
      [PropsSI_query Prop_H Prop_P 101325 Prop_T (T1_C + 273.15) Air,
       PropsSI_query Prop_S Prop_P 101325 Prop_T (T1_C + 273.15) Air,
       PropsSI_query Prop_H Prop_P (101325 * pr) Prop_S (s_kJ (gas_cycle.states g) ! 0 * 1000) Air,
       PropsSI_query Prop_T Prop_P (101325 * pr) Prop_H (h_kJ (gas_cycle.states g) ! 1 * 1000) Air,
       PropsSI_query Prop_S Prop_P (101325 * pr) Prop_H (h_kJ (gas_cycle.states g) ! 1 * 1000) Air] @ rest"
  using assms
  by (rule gas_cycle_InrE)
    (auto dest!: for_each_extends [OF appends_compression_sample]
      for_each_extends [OF appends_isobaric_sample] for_each_extends [OF appends_expansion_sample])

lemma for_each_sat_sample_InrD:
  assumes "for_each (sat_sample be out q) ps l = (Inr ys, l')"
  shows "length ys = length ps \<and>
         (\<forall>i<length ps. be (PropsSI_query out Prop_P (ps ! i) Prop_Q q Water) = Inr (ys ! i * 1000))"
proof -
  have "list_all2 (\<lambda>p y. be (PropsSI_query out Prop_P p Prop_Q q Water) = Inr (y * 1000)) ps ys"
    using for_each_InrD [where f = "sat_sample be out q"
        and q = "\<lambda>p. PropsSI_query out Prop_P p Prop_Q q Water"
        and R = "\<lambda>p y. be (PropsSI_query out Prop_P p Prop_Q q Water) = Inr (y * 1000)", OF _ assms]
      sat_sample_InrD by blast
  then show ?thesis by (auto simp: list_all2_conv_all_nth)
qed

subsection \<open>The two ends of a leg\<close>





lemma gas_cycle_legs:
  assumes "calculate_gas_cycle_THdot_N N N2 be pr T1_C T3_C eta_c eta_t m_dot qs = (Inr g, qs')"
  obtains h1 h2 h3 h4 T2 T4 HT_12 HT_23 HT_34 HT_41 l1 l2 l3 l4 where
    "be (PropsSI_query Prop_H Prop_P 101325 Prop_T (T1_C + 273.15) Air) = Inr h1"
    "be (PropsSI_query Prop_T Prop_P (101325 * pr) Prop_H h2 Air) = Inr T2"
    "be (PropsSI_query Prop_H Prop_P (101325 * pr) Prop_T (T3_C + 273.15) Air) = Inr h3"
    "be (PropsSI_query Prop_T Prop_P 101325 Prop_H h4 Air) = Inr T4"
    "for_each (compression_sample be 101325 (101325 * pr) h1 h2 m_dot)
       (linspace 101325 (101325 * pr) N) l1 = (Inr HT_12, l2)"
    "for_each (isobaric_sample be (101325 * pr) h1 m_dot)
       (linspace T2 (T3_C + 273.15) N2) l2 = (Inr HT_23, l3)"
    "for_each (expansion_sample be 101325 (101325 * pr) h1 h3 h4 m_dot)
       (linspace (101325 * pr) 101325 N) l3 = (Inr HT_34, l4)"
    "for_each (isobaric_sample be 101325 h1 m_dot)
       (linspace T4 (T1_C + 273.15) N) l4 = (Inr HT_41, qs')"
    "leg_H g 0 = map fst HT_12" "leg_T g 0 = map snd HT_12"
    "leg_H g 1 = map fst HT_23" "leg_T g 1 = map snd HT_23"
    "leg_H g 2 = map fst HT_34" "leg_T g 2 = map snd HT_34"
    "leg_H g 3 = map fst HT_41" "leg_T g 3 = map snd HT_41"
    "h_states g = [0, (h2 - h1) * m_dot / 1000, (h3 - h1) * m_dot / 1000, (h4 - h1) * m_dot / 1000]"
    "T_states g = [T1_C, T2 - 273.15, T3_C, T4 - 273.15]"
    "h_kJ (gas_cycle.states g) = [h1 / 1000, h2 / 1000, h3 / 1000, h4 / 1000]"
    "l1 = qs @ [PropsSI_query Prop_H Prop_P 101325 Prop_T (T1_C + 273.15) Air,
               PropsSI_query Prop_S Prop_P 101325 Prop_T (T1_C + 273.15) Air,
               PropsSI_query Prop_H Prop_P (101325 * pr) Prop_S (s_kJ (gas_cycle.states g) ! 0 * 1000) Air,
               PropsSI_query Prop_T Prop_P (101325 * pr) Prop_H h2 Air,
               PropsSI_query Prop_S Prop_P (101325 * pr) Prop_H h2 Air,
               PropsSI_query Prop_H Prop_P (101325 * pr) Prop_T (T3_C + 273.15) Air,
               PropsSI_query Prop_S Prop_P (101325 * pr) Prop_T (T3_C + 273.15) Air,
               PropsSI_query Prop_H Prop_P 101325 Prop_S (s_kJ (gas_cycle.states g) ! 2 * 1000) Air,
               PropsSI_query Prop_T Prop_P 101325 Prop_H h4 Air,
               PropsSI_query Prop_S Prop_P 101325 Prop_H h4 Air]"
  using assms
  apply (rule gas_cycle_InrE)
  apply (erule (7) that)
  apply (simp_all add: leg_H_def leg_T_def)
  done

subsection \<open>Every sample of a leg\<close>

lemma compression_leg_samples:
  assumes run: "for_each (compression_sample be P1 P2 h1 h2 m_dot) (linspace P1 P2 N) l = (Inr HT, l')"
    and N: "2 \<le> N"
  shows "0 < P1 \<and> 0 < P2 \<and> P1 \<noteq> P2 \<and>
    (\<exists>ext. l' = l @ ext \<and> length ext = N \<and>
       (\<forall>i<N. 0 < linspace P1 P2 N ! i \<and>
          ext ! i = PropsSI_query Prop_T Prop_P (linspace P1 P2 N ! i) Prop_H
                      (h1 + (ln (linspace P1 P2 N ! i) - ln P1) / (ln P2 - ln P1) * (h2 - h1)) Air \<and>
          be (ext ! i) = Inr (snd (HT ! i) + 273.15) \<and>
          fst (HT ! i) = (h1 + (ln (linspace P1 P2 N ! i) - ln P1) / (ln P2 - ln P1) * (h2 - h1) - h1)
                           * m_dot / 1000))"
proof -
  let ?xs = "linspace P1 P2 N"
  let ?h = "\<lambda>x. h1 + (ln x - ln P1) / (ln P2 - ln P1) * (h2 - h1)"
  let ?q = "\<lambda>x. PropsSI_query Prop_T Prop_P x Prop_H (?h x) Air"
  let ?R = "\<lambda>x y. 0 < x \<and> be (?q x) = Inr (snd y + 273.15) \<and> fst y = (?h x - h1) * m_dot / 1000"
  from N have iN: "N - 1 < length ?xs" by simp
  from for_each_nth [OF run iN] linspace_last [OF N, of P1 P2]
  obtain la la' where "compression_sample be P1 P2 h1 h2 m_dot P2 la = (Inr (HT ! (N - 1)), la')"
    by auto
  from compression_sample_InrD [OF this] obtain f where "compression_frac P1 P2 P2 = Fin f"
    by blast
  from compression_frac_end [OF this] have P: "0 < P1" "0 < P2" "P1 \<noteq> P2" by simp_all
  have step: "l'' = k @ [?q x] \<and> ?R x y"
    if "compression_sample be P1 P2 h1 h2 m_dot x k = (Inr y, l'')" for x k y l''
  proof -
    from compression_sample_InrD [OF that] obtain f where
      f: "compression_frac P1 P2 x = Fin f"
      and rest: "be (PropsSI_query Prop_T Prop_P x Prop_H (h1 + f * (h2 - h1)) Air) = Inr (snd y + 273.15)"
        "fst y = (h1 + f * (h2 - h1) - h1) * m_dot / 1000"
        "l'' = k @ [PropsSI_query Prop_T Prop_P x Prop_H (h1 + f * (h2 - h1)) Air]"
      by blast
    from compression_frac_FinD [OF f] P have "0 < x" "f = (ln x - ln P1) / (ln P2 - ln P1)"
      by auto
    with rest show ?thesis by simp
  qed
  from for_each_InrD [of "compression_sample be P1 P2 h1 h2 m_dot" ?q ?R, OF step run]
  have log: "l' = l @ map ?q ?xs" and all: "list_all2 ?R ?xs HT" by simp_all
  have nth: "0 < ?xs ! i \<and> map ?q ?xs ! i = ?q (?xs ! i) \<and>
      be (map ?q ?xs ! i) = Inr (snd (HT ! i) + 273.15) \<and>
      fst (HT ! i) = (?h (?xs ! i) - h1) * m_dot / 1000" if "i < N" for i
  proof -
    from that have "i < length ?xs" by simp
    from list_all2_nthD [OF all this] that show ?thesis by (simp only: nth_map length_linspace)
  qed
  have "l' = l @ map ?q ?xs \<and> length (map ?q ?xs) = N \<and>
       (\<forall>i<N. 0 < ?xs ! i \<and> map ?q ?xs ! i = ?q (?xs ! i) \<and>
          be (map ?q ?xs ! i) = Inr (snd (HT ! i) + 273.15) \<and>
          fst (HT ! i) = (?h (?xs ! i) - h1) * m_dot / 1000)"
    using log nth by (simp only: length_map length_linspace) blast
  then show ?thesis using P by blast
qed

lemma expansion_leg_samples:
  assumes run: "for_each (expansion_sample be P1 P2 h1 h3 h4 m_dot) (linspace P2 P1 N) l = (Inr HT, l')"
    and N: "2 \<le> N"
  shows "0 < P1 \<and> 0 < P2 \<and> P1 \<noteq> P2 \<and>
    (\<exists>ext. l' = l @ ext \<and> length ext = N \<and>
       (\<forall>i<N. 0 < linspace P2 P1 N ! i \<and>
          ext ! i = PropsSI_query Prop_T Prop_P (linspace P2 P1 N ! i) Prop_H
                      (h3 - (ln P2 - ln (linspace P2 P1 N ! i)) / (ln P2 - ln P1) * (h3 - h4)) Air \<and>
          be (ext ! i) = Inr (snd (HT ! i) + 273.15) \<and>
          fst (HT ! i) = (h3 - (ln P2 - ln (linspace P2 P1 N ! i)) / (ln P2 - ln P1) * (h3 - h4) - h1)
                           * m_dot / 1000))"
proof -
  let ?xs = "linspace P2 P1 N"
  let ?h = "\<lambda>x. h3 - (ln P2 - ln x) / (ln P2 - ln P1) * (h3 - h4)"
  let ?q = "\<lambda>x. PropsSI_query Prop_T Prop_P x Prop_H (?h x) Air"
  let ?R = "\<lambda>x y. 0 < x \<and> be (?q x) = Inr (snd y + 273.15) \<and> fst y = (?h x - h1) * m_dot / 1000"
  from N have iN: "N - 1 < length ?xs" by simp
  from for_each_nth [OF run iN] linspace_last [OF N, of P2 P1]
  obtain la la' where "expansion_sample be P1 P2 h1 h3 h4 m_dot P1 la = (Inr (HT ! (N - 1)), la')"
    by auto
  from expansion_sample_InrD [OF this] obtain f where "expansion_frac P1 P2 P1 = Fin f"
    by blast
  from expansion_frac_end [OF this] have P: "0 < P1" "0 < P2" "P1 \<noteq> P2" by simp_all
  have step: "l'' = k @ [?q x] \<and> ?R x y"
    if "expansion_sample be P1 P2 h1 h3 h4 m_dot x k = (Inr y, l'')" for x k y l''
  proof -
    from expansion_sample_InrD [OF that] obtain f where
      f: "expansion_frac P1 P2 x = Fin f"
      and rest: "be (PropsSI_query Prop_T Prop_P x Prop_H (h3 - f * (h3 - h4)) Air) = Inr (snd y + 273.15)"
        "fst y = (h3 - f * (h3 - h4) - h1) * m_dot / 1000"
        "l'' = k @ [PropsSI_query Prop_T Prop_P x Prop_H (h3 - f * (h3 - h4)) Air]"
      by blast
    from expansion_frac_FinD [OF f] P have "0 < x" "f = (ln P2 - ln x) / (ln P2 - ln P1)"
      by auto
    with rest show ?thesis by simp
  qed
  from for_each_InrD [of "expansion_sample be P1 P2 h1 h3 h4 m_dot" ?q ?R, OF step run]
  have log: "l' = l @ map ?q ?xs" and all: "list_all2 ?R ?xs HT" by simp_all
  have nth: "0 < ?xs ! i \<and> map ?q ?xs ! i = ?q (?xs ! i) \<and>
      be (map ?q ?xs ! i) = Inr (snd (HT ! i) + 273.15) \<and>
      fst (HT ! i) = (?h (?xs ! i) - h1) * m_dot / 1000" if "i < N" for i
  proof -
    from that have "i < length ?xs" by simp
    from list_all2_nthD [OF all this] that show ?thesis by (simp only: nth_map length_linspace)
  qed
  have "l' = l @ map ?q ?xs \<and> length (map ?q ?xs) = N \<and>
       (\<forall>i<N. 0 < ?xs ! i \<and> map ?q ?xs ! i = ?q (?xs ! i) \<and>
          be (map ?q ?xs ! i) = Inr (snd (HT ! i) + 273.15) \<and>
          fst (HT ! i) = (?h (?xs ! i) - h1) * m_dot / 1000)"
    using log nth by (simp only: length_map length_linspace) blast
  then show ?thesis using P by blast
qed

lemma isobaric_leg_log:
  assumes run: "for_each (isobaric_sample be Pconst h1 m_dot) Ts l = (Inr HT, l')"
  shows "\<exists>ext. l' = l @ ext \<and> length ext = length Ts"
proof -
  have step: "l'' = k @ [PropsSI_query Prop_H Prop_P Pconst Prop_T x Air] \<and> True"
    if "isobaric_sample be Pconst h1 m_dot x k = (Inr y, l'')" for x k y l''
    using isobaric_sample_InrD [OF that] by blast
  from for_each_InrD [of "isobaric_sample be Pconst h1 m_dot"
      "\<lambda>x. PropsSI_query Prop_H Prop_P Pconst Prop_T x Air" "\<lambda>x y. True", OF step run]
  show ?thesis by simp
qed

lemma log_pressure_interp_frac:
  assumes "0 < Pa" "0 < Pb" "Pa \<noteq> Pb" "0 < p"
  shows "log_pressure_interp Pa Pb ((ln p - ln Pa) / (ln Pb - ln Pa)) = p"
  using assms by (simp add: log_pressure_interp_def)


lemma log_pressure_interp_frac_rev:
  assumes "0 < Pa" "0 < Pb" "Pa \<noteq> Pb" "0 < p"
  shows "log_pressure_interp Pb Pa ((ln Pb - ln p) / (ln Pb - ln Pa)) = p"
proof -
  from assms have d: "ln Pb - ln Pa \<noteq> 0" by simp
  have "(ln Pb - ln p) / (ln Pb - ln Pa) * (ln Pa - ln Pb) = - (ln Pb - ln p)"
  proof -
    have "ln Pa - ln Pb = - (ln Pb - ln Pa)" by simp
    then have "(ln Pb - ln p) / (ln Pb - ln Pa) * (ln Pa - ln Pb)
        = - ((ln Pb - ln p) / (ln Pb - ln Pa) * (ln Pb - ln Pa))"
      by (simp only: mult_minus_right)
    also from d have "\<dots> = - (ln Pb - ln p)" by simp
    finally show ?thesis .
  qed
  then have "ln Pb + (ln Pb - ln p) / (ln Pb - ln Pa) * (ln Pa - ln Pb) = ln p" by simp
  with assms show ?thesis by (simp only: log_pressure_interp_def exp_ln)
qed

lemma log_spacing_differs:
  "log_pressure_interp 101325 (101325 * 12) (1 / 59) \<noteq> 101325 + (101325 * 12 - 101325) / 59"
proof
  assume eq: "log_pressure_interp 101325 (101325 * 12) (1 / 59) = 101325 + (101325 * 12 - 101325) / 59"
  define x :: real where "x = exp (ln 12 / 59)"
  have "ln (101325 * 12 :: real) = ln 101325 + ln 12" by (rule ln_mult_pos) simp_all
  then have "log_pressure_interp 101325 (101325 * 12) (1 / 59) = exp (ln 101325 + ln 12 / 59)"
    by (simp add: log_pressure_interp_def)
  also have "\<dots> = 101325 * x" by (simp add: exp_add x_def)
  finally have "101325 * x = 101325 + (101325 * 12 - 101325) / 59" using eq by simp
  then have x: "x = 70 / 59" by simp
  have "x ^ 59 = exp (59 * (ln 12 / 59))" unfolding x_def by (simp only: exp_of_nat_mult [symmetric] of_nat_numeral)
  then have "x ^ 59 = 12" by simp
  then have "(70 / 59 :: real) ^ 59 = 12" unfolding x .
  then show False by (simp add: field_simps)
qed

section \<open>Conservation in the biomass router\<close>

text \<open>
  C6. For every total flow and every percentage (in particular for a total of at least
  zero and fractions between 0 and 1), the moisture-rich and the moisture-lean flow add up
  to the total, and the hydrochar and the residual flow add up to the moisture-lean flow.
  The equalities are those of real arithmetic.
\<close>

theorem biomass_conservation:
  "(case biomass_outputs m_total moist_pct ad_eff_pct htc_conv_pct of
      (m_rich, m_lean, m_bio, m_char, m_vol) \<Rightarrow>
        m_rich + m_lean = m_total \<and> m_char + m_vol = m_lean)"
  by (simp add: biomass_outputs_def Let_def algebra_simps)

section \<open>Termination and the number of queries\<close>

text \<open>
  C9. Both solvers are total functions: every loop runs over a list of fixed length. A
  steam solve makes at most 1212 queries (12 for the states and the critical pressure,
  4 times 300 for the dome) and a gas solve at most 270 (10 for the states, 60, 80, 60
  and 60 for the legs), whatever the inputs, the backend's answers and the outcome.
\<close>

theorem bounded_queries:
  "length (snd (calculate_steam_cycle be P_cond_kPa P_boiler_kPa T_boiler_C pump_eff_pct turb_eff_pct qs))
     \<le> length qs + 1212 \<and>
   length (snd (calculate_gas_cycle_THdot be pr T1_C T3_C eta_c eta_t m_dot qs))
     \<le> length qs + 270"
proof
  from appends_steam [of be P_cond_kPa P_boiler_kPa T_boiler_C pump_eff_pct turb_eff_pct]
  obtain r where "snd (calculate_steam_cycle be P_cond_kPa P_boiler_kPa T_boiler_C pump_eff_pct turb_eff_pct qs) = qs @ r"
    "length r \<le> 1212" unfolding appends_def by blast
  then show "length (snd (calculate_steam_cycle be P_cond_kPa P_boiler_kPa T_boiler_C pump_eff_pct turb_eff_pct qs))
     \<le> length qs + 1212" by simp
next
  from appends_gas [of 60 80 be pr T1_C T3_C eta_c eta_t m_dot]
  obtain r where "snd (calculate_gas_cycle_THdot be pr T1_C T3_C eta_c eta_t m_dot qs) = qs @ r"
    "length r \<le> 270" unfolding appends_def calculate_gas_cycle_THdot_def by auto
  then show "length (snd (calculate_gas_cycle_THdot be pr T1_C T3_C eta_c eta_t m_dot qs))
     \<le> length qs + 270" by simp
qed

section \<open>The derived scalars\<close>

text \<open>
  C3. Whenever a solve succeeds, the net work it returns is the turbine work minus the
  pump (steam) or compressor (gas) work, and the efficiency is the net work divided by
  the heat input, times 100; the heat input is then not zero. For the gas cycle the
  back-work ratio is the compressor work divided by the turbine work, times 100, and the
  compressor work, the heat input and the turbine work are the differences of the state
  enthalpies (in kJ/kg) times the mass flow. For the steam cycle they are the differences
  of the state enthalpies.
\<close>

theorem derived_scalars:
  "(fst (calculate_steam_cycle be P_cond_kPa P_boiler_kPa T_boiler_C pump_eff_pct turb_eff_pct qs) = Inr r \<longrightarrow>
      steam_cycle.net_w r = steam_cycle.turb_w r - pump_w r \<and>
      boiler_q r \<noteq> 0 \<and>
      steam_cycle.eta r = steam_cycle.net_w r / boiler_q r * 100 \<and>
      pump_w r = h_kJ (steam_cycle.states r) ! 1 - h_kJ (steam_cycle.states r) ! 0 \<and>
      boiler_q r = h_kJ (steam_cycle.states r) ! 2 - h_kJ (steam_cycle.states r) ! 1 \<and>
      steam_cycle.turb_w r = h_kJ (steam_cycle.states r) ! 2 - h_kJ (steam_cycle.states r) ! 3) \<and>
   (fst (calculate_gas_cycle_THdot be pr T1_C T3_C eta_c eta_t m_dot qs) = Inr g \<longrightarrow>
      gas_cycle.net_w g = gas_cycle.turb_w g - comp_w g \<and>
      heat_in g \<noteq> 0 \<and> gas_cycle.turb_w g \<noteq> 0 \<and>
      gas_cycle.eta g = gas_cycle.net_w g / heat_in g * 100 \<and>
      bwr g = comp_w g / gas_cycle.turb_w g * 100 \<and>
      comp_w g = (h_kJ (gas_cycle.states g) ! 1 - h_kJ (gas_cycle.states g) ! 0) * m_dot \<and>
      heat_in g = (h_kJ (gas_cycle.states g) ! 2 - h_kJ (gas_cycle.states g) ! 1) * m_dot \<and>
      gas_cycle.turb_w g = (h_kJ (gas_cycle.states g) ! 2 - h_kJ (gas_cycle.states g) ! 3) * m_dot)"
proof (intro conjI impI)
  assume "fst (calculate_steam_cycle be P_cond_kPa P_boiler_kPa T_boiler_C pump_eff_pct turb_eff_pct qs) = Inr r"
  then have run: "calculate_steam_cycle be P_cond_kPa P_boiler_kPa T_boiler_C pump_eff_pct turb_eff_pct qs
      = (Inr r, snd (calculate_steam_cycle be P_cond_kPa P_boiler_kPa T_boiler_C pump_eff_pct turb_eff_pct qs))"
    by (rule run_Inr)
  from run show "steam_cycle.net_w r = steam_cycle.turb_w r - pump_w r"
    by (rule steam_cycle_InrE) simp
  from run show "boiler_q r \<noteq> 0"
    by (rule steam_cycle_InrE) simp
  from run show "steam_cycle.eta r = steam_cycle.net_w r / boiler_q r * 100"
    by (rule steam_cycle_InrE) simp
  from run show "pump_w r = h_kJ (steam_cycle.states r) ! 1 - h_kJ (steam_cycle.states r) ! 0"
    by (rule steam_cycle_InrE) (simp add: diff_divide_distrib)
  from run show "boiler_q r = h_kJ (steam_cycle.states r) ! 2 - h_kJ (steam_cycle.states r) ! 1"
    by (rule steam_cycle_InrE) (simp add: diff_divide_distrib)
  from run show "steam_cycle.turb_w r = h_kJ (steam_cycle.states r) ! 2 - h_kJ (steam_cycle.states r) ! 3"
    by (rule steam_cycle_InrE) (simp add: diff_divide_distrib)
next
  assume "fst (calculate_gas_cycle_THdot be pr T1_C T3_C eta_c eta_t m_dot qs) = Inr g"
  then have run: "calculate_gas_cycle_THdot_N 60 80 be pr T1_C T3_C eta_c eta_t m_dot qs
      = (Inr g, snd (calculate_gas_cycle_THdot_N 60 80 be pr T1_C T3_C eta_c eta_t m_dot qs))"
    unfolding calculate_gas_cycle_THdot_def by (rule run_Inr)
  from run show "gas_cycle.net_w g = gas_cycle.turb_w g - comp_w g"
    by (rule gas_cycle_InrE) simp
  from run show "heat_in g \<noteq> 0"
    by (rule gas_cycle_InrE) simp
  from run show "gas_cycle.turb_w g \<noteq> 0"
    by (rule gas_cycle_InrE) simp
  from run show "gas_cycle.eta g = gas_cycle.net_w g / heat_in g * 100"
    by (rule gas_cycle_InrE) simp
  from run show "bwr g = comp_w g / gas_cycle.turb_w g * 100"
    by (rule gas_cycle_InrE) simp
  from run show "comp_w g = (h_kJ (gas_cycle.states g) ! 1 - h_kJ (gas_cycle.states g) ! 0) * m_dot"
    by (rule gas_cycle_InrE) (simp add: diff_divide_distrib)
  from run show "heat_in g = (h_kJ (gas_cycle.states g) ! 2 - h_kJ (gas_cycle.states g) ! 1) * m_dot"
    by (rule gas_cycle_InrE) (simp add: diff_divide_distrib)
  from run show "gas_cycle.turb_w g = (h_kJ (gas_cycle.states g) ! 2 - h_kJ (gas_cycle.states g) ! 3) * m_dot"
    by (rule gas_cycle_InrE) (simp add: diff_divide_distrib)
qed

theorem derived_scalars_witness:
  "steam_cycle.net_w (projr (fst (calculate_steam_cycle toy_backend 10 2000 350 85 85 []))) =
     steam_cycle.turb_w (projr (fst (calculate_steam_cycle toy_backend 10 2000 350 85 85 []))) -
     pump_w (projr (fst (calculate_steam_cycle toy_backend 10 2000 350 85 85 []))) \<and>
   steam_cycle.eta (projr (fst (calculate_steam_cycle toy_backend 10 2000 350 85 85 []))) =
     steam_cycle.net_w (projr (fst (calculate_steam_cycle toy_backend 10 2000 350 85 85 []))) /
     boiler_q (projr (fst (calculate_steam_cycle toy_backend 10 2000 350 85 85 []))) * 100 \<and>
   bwr (projr (fst (calculate_gas_cycle_THdot toy_backend 12 25 1100 88 90 1 []))) =
     comp_w (projr (fst (calculate_gas_cycle_THdot toy_backend 12 25 1100 88 90 1 []))) /
     gas_cycle.turb_w (projr (fst (calculate_gas_cycle_THdot toy_backend 12 25 1100 88 90 1 []))) * 100 \<and>
   gas_cycle.net_w (projr (fst (calculate_gas_cycle_THdot toy_backend 12 25 1100 88 90 1 []))) =
     gas_cycle.turb_w (projr (fst (calculate_gas_cycle_THdot toy_backend 12 25 1100 88 90 1 []))) -
     comp_w (projr (fst (calculate_gas_cycle_THdot toy_backend 12 25 1100 88 90 1 [])))"
proof -
  have s: "fst (calculate_steam_cycle toy_backend 10 2000 350 85 85 []) =
      Inr (projr (fst (calculate_steam_cycle toy_backend 10 2000 350 85 85 [])))"
    using toy_steam_default by simp
  have g: "fst (calculate_gas_cycle_THdot toy_backend 12 25 1100 88 90 1 []) =
      Inr (projr (fst (calculate_gas_cycle_THdot toy_backend 12 25 1100 88 90 1 [])))"
    using toy_gas_default by simp
  from derived_scalars [of toy_backend 10 2000 350 85 85 "[]"
      "projr (fst (calculate_steam_cycle toy_backend 10 2000 350 85 85 []))"
      12 25 1100 88 90 1
      "projr (fst (calculate_gas_cycle_THdot toy_backend 12 25 1100 88 90 1 []))"] s g
  show ?thesis by blast
qed

section \<open>The efficiency is returned as computed\<close>

text \<open>
  C7. Whenever a solve succeeds, the efficiency it returns is the net work divided by the
  heat input, times 100, as computed: no maximum with zero is taken in the solver, so a
  negative quotient is returned negative. The maximum with zero is taken where the value
  is displayed. On the linear backend the steam cycle with inverted pressures and the gas
  cycle with the default inputs both return a negative efficiency, displayed as zero.
\<close>

theorem raw_efficiency:
  "(fst (calculate_steam_cycle be P_cond_kPa P_boiler_kPa T_boiler_C pump_eff_pct turb_eff_pct qs) = Inr r \<longrightarrow>
      steam_cycle.eta r = (steam_cycle.turb_w r - pump_w r) / boiler_q r * 100 \<and>
      display_eff (steam_cycle.eta r) = max 0 ((steam_cycle.turb_w r - pump_w r) / boiler_q r * 100)) \<and>
   (fst (calculate_gas_cycle_THdot be pr T1_C T3_C eta_c eta_t m_dot qs) = Inr g \<longrightarrow>
      gas_cycle.eta g = (gas_cycle.turb_w g - comp_w g) / heat_in g * 100 \<and>
      display_eff (gas_cycle.eta g) = max 0 ((gas_cycle.turb_w g - comp_w g) / heat_in g * 100))"
proof (intro conjI impI)
  assume "fst (calculate_steam_cycle be P_cond_kPa P_boiler_kPa T_boiler_C pump_eff_pct turb_eff_pct qs) = Inr r"
  then have run: "calculate_steam_cycle be P_cond_kPa P_boiler_kPa T_boiler_C pump_eff_pct turb_eff_pct qs
      = (Inr r, snd (calculate_steam_cycle be P_cond_kPa P_boiler_kPa T_boiler_C pump_eff_pct turb_eff_pct qs))"
    by (rule run_Inr)
  from run show eq: "steam_cycle.eta r = (steam_cycle.turb_w r - pump_w r) / boiler_q r * 100"
    by (rule steam_cycle_InrE) simp
  then show "display_eff (steam_cycle.eta r) = max 0 ((steam_cycle.turb_w r - pump_w r) / boiler_q r * 100)"
    by (simp only: display_eff_def)
next
  assume "fst (calculate_gas_cycle_THdot be pr T1_C T3_C eta_c eta_t m_dot qs) = Inr g"
  then have run: "calculate_gas_cycle_THdot_N 60 80 be pr T1_C T3_C eta_c eta_t m_dot qs
      = (Inr g, snd (calculate_gas_cycle_THdot_N 60 80 be pr T1_C T3_C eta_c eta_t m_dot qs))"
    unfolding calculate_gas_cycle_THdot_def by (rule run_Inr)
  from run show eq: "gas_cycle.eta g = (gas_cycle.turb_w g - comp_w g) / heat_in g * 100"
    by (rule gas_cycle_InrE) simp
  then show "display_eff (gas_cycle.eta g) = max 0 ((gas_cycle.turb_w g - comp_w g) / heat_in g * 100)"
    by (simp only: display_eff_def)
qed

theorem raw_efficiency_witness:
  "steam_cycle.eta (projr (fst (calculate_steam_cycle toy_backend 2000 10 350 85 85 []))) =
     (steam_cycle.turb_w (projr (fst (calculate_steam_cycle toy_backend 2000 10 350 85 85 []))) -
      pump_w (projr (fst (calculate_steam_cycle toy_backend 2000 10 350 85 85 [])))) /
     boiler_q (projr (fst (calculate_steam_cycle toy_backend 2000 10 350 85 85 []))) * 100 \<and>
   steam_cycle.eta (projr (fst (calculate_steam_cycle toy_backend 2000 10 350 85 85 []))) < 0 \<and>
   display_eff (steam_cycle.eta (projr (fst (calculate_steam_cycle toy_backend 2000 10 350 85 85 [])))) = 0 \<and>
   gas_cycle.eta (projr (fst (calculate_gas_cycle_THdot toy_backend 12 25 1100 88 90 1 []))) =
     (gas_cycle.turb_w (projr (fst (calculate_gas_cycle_THdot toy_backend 12 25 1100 88 90 1 []))) -
      comp_w (projr (fst (calculate_gas_cycle_THdot toy_backend 12 25 1100 88 90 1 [])))) /
     heat_in (projr (fst (calculate_gas_cycle_THdot toy_backend 12 25 1100 88 90 1 []))) * 100 \<and>
   gas_cycle.eta (projr (fst (calculate_gas_cycle_THdot toy_backend 12 25 1100 88 90 1 []))) < 0 \<and>
   display_eff (gas_cycle.eta (projr (fst (calculate_gas_cycle_THdot toy_backend 12 25 1100 88 90 1 [])))) = 0"
proof -
  let ?r = "projr (fst (calculate_steam_cycle toy_backend 2000 10 350 85 85 []))"
  let ?g = "projr (fst (calculate_gas_cycle_THdot toy_backend 12 25 1100 88 90 1 []))"
  have s: "fst (calculate_steam_cycle toy_backend 2000 10 350 85 85 []) = Inr ?r"
    using toy_steam_inverted by simp
  have g: "fst (calculate_gas_cycle_THdot toy_backend 12 25 1100 88 90 1 []) = Inr ?g"
    using toy_gas_default by simp
  have neg_s: "steam_cycle.eta ?r < 0"
    by (simp add: calculate_steam_cycle_def run_simps toy_backend_def)
  have neg_g: "gas_cycle.eta ?g < 0"
    by (simp add: calculate_gas_cycle_THdot_def calculate_gas_cycle_THdot_N_def run_simps toy_backend_def)
  from raw_efficiency [of toy_backend 2000 10 350 85 85 "[]" ?r 12 25 1100 88 90 1 ?g] s g
  have eqs: "steam_cycle.eta ?r = (steam_cycle.turb_w ?r - pump_w ?r) / boiler_q ?r * 100"
    "gas_cycle.eta ?g = (gas_cycle.turb_w ?g - comp_w ?g) / heat_in ?g * 100"
    by blast+
  from neg_s have "display_eff (steam_cycle.eta ?r) = 0" by (simp add: display_eff_def)
  moreover from neg_g have "display_eff (gas_cycle.eta ?g) = 0" by (simp add: display_eff_def)
  ultimately show ?thesis using eqs neg_s neg_g by blast
qed

section \<open>No check of the inputs of the steam cycle\<close>




section \<open>The divisions of the gas cycle\<close>



section \<open>The ideal outlet enthalpy of the pump and of the compressor\<close>

text \<open>
  C4, as the code has it. In the steam solver the ideal outlet enthalpy of the pump is the
  linearised incompressible approximation \<open>h1 + v1 (P2 - P1)\<close>, with \<open>v1\<close> the inverse of
  the queried density of the saturated liquid, and no query is made for it: the four
  queries of state 1 are followed at once by the two queries at \<open>(P2, h2)\<close>. In the gas
  solver the ideal outlet enthalpy of the compressor is the answer of the backend to the
  isentropic query at \<open>(P2, s1)\<close>, the third query of the solve, and no density is
  queried. In both solvers the actual outlet enthalpy is \<open>h1 + (h_ideal - h1) / \<eta>\<close>, and
  entropy and temperature of state 2 are the answers of the backend at \<open>(P2, h2)\<close>.

  On the linear backend with the default inputs, the enthalpy of state 2 of the gas cycle
  differs from what the linearised approximation (with the density of the air at the
  inlet) would give.
\<close>

theorem ideal_outlet_enthalpy:
  "(calculate_steam_cycle be P_cond_kPa P_boiler_kPa T_boiler_C pump_eff_pct turb_eff_pct qs = (Inr r, qs') \<longrightarrow>
      (\<exists>d1. be (PropsSI_query Prop_D Prop_P (P_cond_kPa * 1000) Prop_Q 0 Water) = Inr d1 \<and> d1 \<noteq> 0 \<and>
            h_kJ (steam_cycle.states r) ! 1 * 1000 =
              actual_outlet (h_kJ (steam_cycle.states r) ! 0 * 1000)
                (incompressible_ideal_outlet (h_kJ (steam_cycle.states r) ! 0 * 1000) (1 / d1)
                   (P_cond_kPa * 1000) (P_boiler_kPa * 1000))
                (pump_eff_pct / 100)) \<and>
      be (PropsSI_query Prop_S Prop_P (P_boiler_kPa * 1000) Prop_H (h_kJ (steam_cycle.states r) ! 1 * 1000) Water)
        = Inr (s_kJ (steam_cycle.states r) ! 1 * 1000) \<and>
      be (PropsSI_query Prop_T Prop_P (P_boiler_kPa * 1000) Prop_H (h_kJ (steam_cycle.states r) ! 1 * 1000) Water)
        = Inr (T_C (steam_cycle.states r) ! 1 + 273.15) \<and>
      take 6 (drop (length qs) qs') =
        [PropsSI_query Prop_H Prop_P (P_cond_kPa * 1000) Prop_Q 0 Water,
         PropsSI_query Prop_S Prop_P (P_cond_kPa * 1000) Prop_Q 0 Water,
         PropsSI_query Prop_D Prop_P (P_cond_kPa * 1000) Prop_Q 0 Water,
         PropsSI_query Prop_T Prop_P (P_cond_kPa * 1000) Prop_Q 0 Water,
         PropsSI_query Prop_S Prop_P (P_boiler_kPa * 1000) Prop_H (h_kJ (steam_cycle.states r) ! 1 * 1000) Water,
         PropsSI_query Prop_T Prop_P (P_boiler_kPa * 1000) Prop_H (h_kJ (steam_cycle.states r) ! 1 * 1000) Water]) \<and>
   (calculate_gas_cycle_THdot be pr T1_C T3_C eta_c eta_t m_dot qs = (Inr g, qs') \<longrightarrow>
      (\<exists>h2s. be (PropsSI_query Prop_H Prop_P (101325 * pr) Prop_S (s_kJ (gas_cycle.states g) ! 0 * 1000) Air) = Inr h2s \<and>
             h_kJ (gas_cycle.states g) ! 1 * 1000 =
               actual_outlet (h_kJ (gas_cycle.states g) ! 0 * 1000) h2s (eta_c / 100)) \<and>
      be (PropsSI_query Prop_T Prop_P (101325 * pr) Prop_H (h_kJ (gas_cycle.states g) ! 1 * 1000) Air)
        = Inr (T_C (gas_cycle.states g) ! 1 + 273.15) \<and>
      be (PropsSI_query Prop_S Prop_P (101325 * pr) Prop_H (h_kJ (gas_cycle.states g) ! 1 * 1000) Air)
        = Inr (s_kJ (gas_cycle.states g) ! 1 * 1000) \<and>
      take 5 (drop (length qs) qs') =
        [PropsSI_query Prop_H Prop_P 101325 Prop_T (T1_C + 273.15) Air,
         PropsSI_query Prop_S Prop_P 101325 Prop_T (T1_C + 273.15) Air,
         PropsSI_query Prop_H Prop_P (101325 * pr) Prop_S (s_kJ (gas_cycle.states g) ! 0 * 1000) Air,
         PropsSI_query Prop_T Prop_P (101325 * pr) Prop_H (h_kJ (gas_cycle.states g) ! 1 * 1000) Air,
         PropsSI_query Prop_S Prop_P (101325 * pr) Prop_H (h_kJ (gas_cycle.states g) ! 1 * 1000) Air])"
proof (intro conjI impI)
  assume run: "calculate_steam_cycle be P_cond_kPa P_boiler_kPa T_boiler_C pump_eff_pct turb_eff_pct qs = (Inr r, qs')"
  from run show "\<exists>d1. be (PropsSI_query Prop_D Prop_P (P_cond_kPa * 1000) Prop_Q 0 Water) = Inr d1 \<and> d1 \<noteq> 0 \<and>
            h_kJ (steam_cycle.states r) ! 1 * 1000 =
              actual_outlet (h_kJ (steam_cycle.states r) ! 0 * 1000)
                (incompressible_ideal_outlet (h_kJ (steam_cycle.states r) ! 0 * 1000) (1 / d1)
                   (P_cond_kPa * 1000) (P_boiler_kPa * 1000))
                (pump_eff_pct / 100)"
    by (rule steam_cycle_InrE) (auto simp: actual_outlet_def incompressible_ideal_outlet_def)
  from run show "be (PropsSI_query Prop_S Prop_P (P_boiler_kPa * 1000) Prop_H (h_kJ (steam_cycle.states r) ! 1 * 1000) Water)
        = Inr (s_kJ (steam_cycle.states r) ! 1 * 1000)"
    by (rule steam_cycle_InrE) simp
  from run show "be (PropsSI_query Prop_T Prop_P (P_boiler_kPa * 1000) Prop_H (h_kJ (steam_cycle.states r) ! 1 * 1000) Water)
        = Inr (T_C (steam_cycle.states r) ! 1 + 273.15)"
    by (rule steam_cycle_InrE) simp
  from steam_cycle_log [OF run] show "take 6 (drop (length qs) qs') =
        [PropsSI_query Prop_H Prop_P (P_cond_kPa * 1000) Prop_Q 0 Water,
         PropsSI_query Prop_S Prop_P (P_cond_kPa * 1000) Prop_Q 0 Water,
         PropsSI_query Prop_D Prop_P (P_cond_kPa * 1000) Prop_Q 0 Water,
         PropsSI_query Prop_T Prop_P (P_cond_kPa * 1000) Prop_Q 0 Water,
         PropsSI_query Prop_S Prop_P (P_boiler_kPa * 1000) Prop_H (h_kJ (steam_cycle.states r) ! 1 * 1000) Water,
         PropsSI_query Prop_T Prop_P (P_boiler_kPa * 1000) Prop_H (h_kJ (steam_cycle.states r) ! 1 * 1000) Water]"
    by auto
next
  assume "calculate_gas_cycle_THdot be pr T1_C T3_C eta_c eta_t m_dot qs = (Inr g, qs')"
  then have run: "calculate_gas_cycle_THdot_N 60 80 be pr T1_C T3_C eta_c eta_t m_dot qs = (Inr g, qs')"
    by (simp add: calculate_gas_cycle_THdot_def)
  from run show "\<exists>h2s. be (PropsSI_query Prop_H Prop_P (101325 * pr) Prop_S (s_kJ (gas_cycle.states g) ! 0 * 1000) Air) = Inr h2s \<and>
             h_kJ (gas_cycle.states g) ! 1 * 1000 =
               actual_outlet (h_kJ (gas_cycle.states g) ! 0 * 1000) h2s (eta_c / 100)"
    by (rule gas_cycle_InrE) (auto simp: actual_outlet_def)
  from run show "be (PropsSI_query Prop_T Prop_P (101325 * pr) Prop_H (h_kJ (gas_cycle.states g) ! 1 * 1000) Air)
        = Inr (T_C (gas_cycle.states g) ! 1 + 273.15)"
    by (rule gas_cycle_InrE) simp
  from run show "be (PropsSI_query Prop_S Prop_P (101325 * pr) Prop_H (h_kJ (gas_cycle.states g) ! 1 * 1000) Air)
        = Inr (s_kJ (gas_cycle.states g) ! 1 * 1000)"
    by (rule gas_cycle_InrE) simp
  from gas_cycle_log [OF run] show "take 5 (drop (length qs) qs') =
        [PropsSI_query Prop_H Prop_P 101325 Prop_T (T1_C + 273.15) Air,
         PropsSI_query Prop_S Prop_P 101325 Prop_T (T1_C + 273.15) Air,
         PropsSI_query Prop_H Prop_P (101325 * pr) Prop_S (s_kJ (gas_cycle.states g) ! 0 * 1000) Air,
         PropsSI_query Prop_T Prop_P (101325 * pr) Prop_H (h_kJ (gas_cycle.states g) ! 1 * 1000) Air,
         PropsSI_query Prop_S Prop_P (101325 * pr) Prop_H (h_kJ (gas_cycle.states g) ! 1 * 1000) Air]"
    by auto
qed


theorem ideal_outlet_enthalpy_witness:
  "h_kJ (steam_cycle.states (projr (fst (calculate_steam_cycle toy_backend 10 2000 350 85 85 [])))) ! 1 * 1000 =
     actual_outlet 300100 (incompressible_ideal_outlet 300100 (1 / 1000) 10000 2000000) (85 / 100) \<and>
   h_kJ (gas_cycle.states (projr (fst (calculate_gas_cycle_THdot toy_backend 12 25 1100 88 90 1 [])))) ! 1 * 1000 =
     actual_outlet 298150 409607.5 (88 / 100)"
proof -
  let ?r = "projr (fst (calculate_steam_cycle toy_backend 10 2000 350 85 85 []))"
  let ?g = "projr (fst (calculate_gas_cycle_THdot toy_backend 12 25 1100 88 90 1 []))"
  have s: "calculate_steam_cycle toy_backend 10 2000 350 85 85 [] =
      (Inr ?r, snd (calculate_steam_cycle toy_backend 10 2000 350 85 85 []))"
    using toy_steam_default by (intro run_Inr) simp
  have g: "calculate_gas_cycle_THdot toy_backend 12 25 1100 88 90 1 [] =
      (Inr ?g, snd (calculate_gas_cycle_THdot toy_backend 12 25 1100 88 90 1 []))"
    using toy_gas_default by (intro run_Inr) simp
  have h1s: "h_kJ (steam_cycle.states ?r) ! 0 * 1000 = 300100"
    by (simp add: calculate_steam_cycle_def run_simps toy_backend_def)
  have h1g: "h_kJ (gas_cycle.states ?g) ! 0 * 1000 = 298150"
    "s_kJ (gas_cycle.states ?g) ! 0 * 1000 = 2.880175"
    by (simp_all add: calculate_gas_cycle_THdot_def calculate_gas_cycle_THdot_N_def run_simps toy_backend_def)
  from ideal_outlet_enthalpy [of toy_backend 10 2000 350 85 85 "[]" ?r
      "snd (calculate_steam_cycle toy_backend 10 2000 350 85 85 [])"] s
  obtain d1 where q: "toy_backend (PropsSI_query Prop_D Prop_P (10 * 1000) Prop_Q 0 Water) = Inr d1"
    and e: "h_kJ (steam_cycle.states ?r) ! 1 * 1000 =
              actual_outlet (h_kJ (steam_cycle.states ?r) ! 0 * 1000)
                (incompressible_ideal_outlet (h_kJ (steam_cycle.states ?r) ! 0 * 1000) (1 / d1)
                   (10 * 1000) (2000 * 1000)) (85 / 100)"
    by blast
  from q have "d1 = 1000" by (simp add: toy_backend_def)
  with e have "h_kJ (steam_cycle.states ?r) ! 1 * 1000 =
     actual_outlet 300100 (incompressible_ideal_outlet 300100 (1 / 1000) (10 * 1000) (2000 * 1000)) (85 / 100)"
    by (simp only: h1s)
  then have A: "h_kJ (steam_cycle.states ?r) ! 1 * 1000 =
     actual_outlet 300100 (incompressible_ideal_outlet 300100 (1 / 1000) 10000 2000000) (85 / 100)"
    by simp
  from ideal_outlet_enthalpy [of toy_backend _ _ _ _ _ "[]" _
      "snd (calculate_gas_cycle_THdot toy_backend 12 25 1100 88 90 1 [])" 12 25 1100 88 90 1 ?g] g
  obtain h2s where q: "toy_backend (PropsSI_query Prop_H Prop_P (101325 * 12) Prop_S
        (s_kJ (gas_cycle.states ?g) ! 0 * 1000) Air) = Inr h2s"
    and e: "h_kJ (gas_cycle.states ?g) ! 1 * 1000 =
               actual_outlet (h_kJ (gas_cycle.states ?g) ! 0 * 1000) h2s (88 / 100)"
    by blast
  from q have "h2s = 409607.5" by (simp add: h1g toy_backend_def)
  with e have B: "h_kJ (gas_cycle.states ?g) ! 1 * 1000 = actual_outlet 298150 409607.5 (88 / 100)"
    by (simp only: h1g)
  from A B show ?thesis by blast
qed

theorem gas_ideal_outlet_is_queried:
  "snd (calculate_gas_cycle_THdot toy_backend 12 25 1100 88 90 1 []) ! 2 =
     PropsSI_query Prop_H Prop_P 1215900 Prop_S 2.880175 Air \<and>
   toy_backend (PropsSI_query Prop_D Prop_P 101325 Prop_T 298.15 Air) = Inr (101325 / (287 * 298.15)) \<and>
   h_kJ (gas_cycle.states (projr (fst (calculate_gas_cycle_THdot toy_backend 12 25 1100 88 90 1 [])))) ! 1 * 1000 \<noteq>
     actual_outlet 298150
       (incompressible_ideal_outlet 298150 (1 / (101325 / (287 * 298.15))) 101325 1215900) (88 / 100)"
  by (simp add: calculate_gas_cycle_THdot_def calculate_gas_cycle_THdot_N_def run_simps toy_backend_def
      actual_outlet_def incompressible_ideal_outlet_def nth_append)

section \<open>The saturation dome\<close>

text \<open>
  C8. In a successful steam solve the dome is sampled at the 300 pressures of
  \<^verbatim>\<open>np.linspace(700, Pcrit * 0.9995, 300)\<close>, where \<open>Pcrit\<close> is the critical pressure the
  backend returns for water. When 99.95 percent of it lie above 700 Pa (for water it is
  about 22 MPa), the pressures increase strictly from 700 Pa to that value. The four
  returned sequences have 300 entries each, and their \<open>i\<close>-th entries are the backend's
  enthalpy and entropy of the saturated liquid and of the saturated vapour at the \<open>i\<close>-th
  pressure, divided by 1000.
\<close>

theorem saturation_dome:
  assumes run: "fst (calculate_steam_cycle be P_cond_kPa P_boiler_kPa T_boiler_C pump_eff_pct turb_eff_pct qs) = Inr r"
    and pcrit: "be (PropsSI_trivial_query Prop_Pcrit Water) = Inr pcrit"
    and floor: "700 < pcrit * 0.9995"
  shows "sorted_wrt (<) (linspace 700 (pcrit * 0.9995) 300) \<and>
         linspace 700 (pcrit * 0.9995) 300 ! 0 = 700 \<and>
         linspace 700 (pcrit * 0.9995) 300 ! 299 = pcrit * 0.9995 \<and>
         length (hf r) = 300 \<and> length (sf r) = 300 \<and> length (hg r) = 300 \<and> length (sg r) = 300 \<and>
         (\<forall>i<300.
            be (PropsSI_query Prop_H Prop_P (linspace 700 (pcrit * 0.9995) 300 ! i) Prop_Q 0 Water) = Inr (hf r ! i * 1000) \<and>
            be (PropsSI_query Prop_S Prop_P (linspace 700 (pcrit * 0.9995) 300 ! i) Prop_Q 0 Water) = Inr (sf r ! i * 1000) \<and>
            be (PropsSI_query Prop_H Prop_P (linspace 700 (pcrit * 0.9995) 300 ! i) Prop_Q 1 Water) = Inr (hg r ! i * 1000) \<and>
            be (PropsSI_query Prop_S Prop_P (linspace 700 (pcrit * 0.9995) 300 ! i) Prop_Q 1 Water) = Inr (sg r ! i * 1000))"
proof -
  let ?P = "linspace 700 (pcrit * 0.9995) 300"
  from run have run': "calculate_steam_cycle be P_cond_kPa P_boiler_kPa T_boiler_C pump_eff_pct turb_eff_pct qs
      = (Inr r, snd (calculate_steam_cycle be P_cond_kPa P_boiler_kPa T_boiler_C pump_eff_pct turb_eff_pct qs))"
    by (rule run_Inr)
  from run' have "\<exists>l l'. for_each (sat_sample be Prop_H 0) ?P l = (Inr (hf r), l')"
    by (rule steam_cycle_InrE) (use pcrit in auto)
  moreover from run' have "\<exists>l l'. for_each (sat_sample be Prop_S 0) ?P l = (Inr (sf r), l')"
    by (rule steam_cycle_InrE) (use pcrit in auto)
  moreover from run' have "\<exists>l l'. for_each (sat_sample be Prop_H 1) ?P l = (Inr (hg r), l')"
    by (rule steam_cycle_InrE) (use pcrit in auto)
  moreover from run' have "\<exists>l l'. for_each (sat_sample be Prop_S 1) ?P l = (Inr (sg r), l')"
    by (rule steam_cycle_InrE) (use pcrit in auto)
  ultimately have loops:
    "\<exists>l l'. for_each (sat_sample be Prop_H 0) ?P l = (Inr (hf r), l')"
    "\<exists>l l'. for_each (sat_sample be Prop_S 0) ?P l = (Inr (sf r), l')"
    "\<exists>l l'. for_each (sat_sample be Prop_H 1) ?P l = (Inr (hg r), l')"
    "\<exists>l l'. for_each (sat_sample be Prop_S 1) ?P l = (Inr (sg r), l')"
    by blast+
  have mono: "sorted_wrt (<) ?P" using floor by (intro linspace_strict_mono) simp_all
  have ends: "?P ! 0 = 700" "?P ! 299 = pcrit * 0.9995"
    using linspace_first [of 300 700 "pcrit * 0.9995"] linspace_last [of 300 700 "pcrit * 0.9995"]
    by simp_all
  from loops for_each_sat_sample_InrD [of be _ _ ?P]
  have "length (hf r) = 300" "length (sf r) = 300" "length (hg r) = 300" "length (sg r) = 300"
    and "\<forall>i<300. be (PropsSI_query Prop_H Prop_P (?P ! i) Prop_Q 0 Water) = Inr (hf r ! i * 1000)"
    and "\<forall>i<300. be (PropsSI_query Prop_S Prop_P (?P ! i) Prop_Q 0 Water) = Inr (sf r ! i * 1000)"
    and "\<forall>i<300. be (PropsSI_query Prop_H Prop_P (?P ! i) Prop_Q 1 Water) = Inr (hg r ! i * 1000)"
    and "\<forall>i<300. be (PropsSI_query Prop_S Prop_P (?P ! i) Prop_Q 1 Water) = Inr (sg r ! i * 1000)"
    by (fastforce simp del: One_nat_def)+
  with mono ends show ?thesis by blast
qed


theorem saturation_dome_witness:
  "sorted_wrt (<) (linspace 700 (22064000 * 0.9995) 300) \<and>
   linspace 700 (22064000 * 0.9995) 300 ! 0 = 700 \<and>
   linspace 700 (22064000 * 0.9995) 300 ! 299 = 22064000 * 0.9995 \<and>
   length (hf (projr (fst (calculate_steam_cycle toy_backend 10 2000 350 85 85 [])))) = 300 \<and>
   length (sg (projr (fst (calculate_steam_cycle toy_backend 10 2000 350 85 85 [])))) = 300 \<and>
   toy_backend (PropsSI_query Prop_H Prop_P (linspace 700 (22064000 * 0.9995) 300 ! 7) Prop_Q 0 Water) =
     Inr (hf (projr (fst (calculate_steam_cycle toy_backend 10 2000 350 85 85 []))) ! 7 * 1000)"
proof -
  let ?r = "projr (fst (calculate_steam_cycle toy_backend 10 2000 350 85 85 []))"
  have run: "fst (calculate_steam_cycle toy_backend 10 2000 350 85 85 []) = Inr ?r"
    using toy_steam_default by simp
  have pcrit: "toy_backend (PropsSI_trivial_query Prop_Pcrit Water) = Inr 22064000"
    by (simp add: toy_backend_def)
  have floor: "(700 :: real) < 22064000 * 0.9995" by simp
  note dome = saturation_dome [OF run pcrit floor]
  from dome have "\<forall>i<300.
      toy_backend (PropsSI_query Prop_H Prop_P (linspace 700 (22064000 * 0.9995) 300 ! i) Prop_Q 0 Water) =
        Inr (hf ?r ! i * 1000)"
    by blast
  then have "toy_backend (PropsSI_query Prop_H Prop_P (linspace 700 (22064000 * 0.9995) 300 ! 7) Prop_Q 0 Water) =
        Inr (hf ?r ! 7 * 1000)"
    by simp
  with dome show ?thesis by blast
qed

section \<open>The ends of the four legs\<close>





section \<open>The samples of the compression and of the expansion leg\<close>

text \<open>
  C5, as the code has it. In a successful gas solve the 60 pressures of the compression
  leg are those of \<^verbatim>\<open>np.linspace(P1, P2, 60)\<close>, evenly spaced in the pressure, and
  those of the expansion leg are the same from \<open>P2\<close> down to \<open>P1\<close>. Each sample is given
  the fractional position of its pressure on the logarithmic scale,
  \<open>(ln P_i - ln P1) / (ln P2 - ln P1)\<close> for the compression and
  \<open>(ln P2 - ln P_i) / (ln P2 - ln P1)\<close> for the expansion, so that the pressure is the
  logarithmic interpolation at that position. The enthalpy is interpolated linearly at
  that position between the enthalpies of the two ends of the leg, the temperature is
  queried from the backend at the pressure and the enthalpy of the sample, and the sample
  of the trace is the enthalpy above state 1, times the mass flow, with that temperature.

  The second pressure of the compression leg, at a pressure ratio of 12, is
  \<open>P1 + (P2 - P1) / 59\<close>, which is not the logarithmic interpolation at \<open>1 / 59\<close>.
\<close>

theorem leg_sampling:
  assumes run: "calculate_gas_cycle_THdot be pr T1_C T3_C eta_c eta_t m_dot qs = (Inr g, qs')"
    and i: "i < 60"
  shows "(let P1 = 101325; P2 = 101325 * pr;
              h1 = h_kJ (gas_cycle.states g) ! 0 * 1000;
              h2 = h_kJ (gas_cycle.states g) ! 1 * 1000;
              P_c = linspace P1 P2 60 ! i;
              f_c = (ln P_c - ln P1) / (ln P2 - ln P1);
              h_c = linear_interp h1 h2 f_c
          in P_c = log_pressure_interp P1 P2 f_c \<and>
             qs' ! (length qs + 10 + i) = PropsSI_query Prop_T Prop_P P_c Prop_H h_c Air \<and>
             be (PropsSI_query Prop_T Prop_P P_c Prop_H h_c Air) = Inr (leg_T g 0 ! i + 273.15) \<and>
             leg_H g 0 ! i = (h_c - h1) * m_dot / 1000) \<and>
         (let P1 = 101325; P2 = 101325 * pr;
              h1 = h_kJ (gas_cycle.states g) ! 0 * 1000;
              h3 = h_kJ (gas_cycle.states g) ! 2 * 1000;
              h4 = h_kJ (gas_cycle.states g) ! 3 * 1000;
              P_e = linspace P2 P1 60 ! i;
              f_e = (ln P2 - ln P_e) / (ln P2 - ln P1);
              h_e = linear_interp h3 h4 f_e
          in P_e = log_pressure_interp P2 P1 f_e \<and>
             qs' ! (length qs + 150 + i) = PropsSI_query Prop_T Prop_P P_e Prop_H h_e Air \<and>
             be (PropsSI_query Prop_T Prop_P P_e Prop_H h_e Air) = Inr (leg_T g 2 ! i + 273.15) \<and>
             leg_H g 2 ! i = (h_e - h1) * m_dot / 1000)"
proof -
  from run have "calculate_gas_cycle_THdot_N 60 80 be pr T1_C T3_C eta_c eta_t m_dot qs = (Inr g, qs')"
    by (simp add: calculate_gas_cycle_THdot_def)
  then obtain h1 h2 h3 h4 T2 T4 HT_12 HT_23 HT_34 HT_41 l1 l2 l3 l4 where
    l12: "for_each (compression_sample be 101325 (101325 * pr) h1 h2 m_dot)
       (linspace 101325 (101325 * pr) 60) l1 = (Inr HT_12, l2)"
    and l23: "for_each (isobaric_sample be (101325 * pr) h1 m_dot)
       (linspace T2 (T3_C + 273.15) 80) l2 = (Inr HT_23, l3)"
    and l34: "for_each (expansion_sample be 101325 (101325 * pr) h1 h3 h4 m_dot)
       (linspace (101325 * pr) 101325 60) l3 = (Inr HT_34, l4)"
    and l41: "for_each (isobaric_sample be 101325 h1 m_dot)
       (linspace T4 (T1_C + 273.15) 60) l4 = (Inr HT_41, qs')"
    and legs: "leg_H g 0 = map fst HT_12" "leg_T g 0 = map snd HT_12"
      "leg_H g 2 = map fst HT_34" "leg_T g 2 = map snd HT_34"
    and st: "h_kJ (gas_cycle.states g) = [h1 / 1000, h2 / 1000, h3 / 1000, h4 / 1000]"
    and l1: "length l1 = length qs + 10" 
    by (rule gas_cycle_legs) simp
  have N: "(2::nat) \<le> 60" by simp
  let ?P1 = "101325 :: real" and ?P2 = "101325 * pr"
  let ?Pc = "linspace ?P1 ?P2 60 ! i" and ?Pe = "linspace ?P2 ?P1 60 ! i"
  from compression_leg_samples [OF l12 N] i obtain e12 where
    P: "0 < ?P2" "?P1 \<noteq> ?P2"
    and e12: "l2 = l1 @ e12" "length e12 = 60" "0 < ?Pc"
      "e12 ! i = PropsSI_query Prop_T Prop_P ?Pc Prop_H
                      (h1 + (ln ?Pc - ln ?P1) / (ln ?P2 - ln ?P1) * (h2 - h1)) Air"
      "be (e12 ! i) = Inr (snd (HT_12 ! i) + 273.15)"
      "fst (HT_12 ! i) = (h1 + (ln ?Pc - ln ?P1) / (ln ?P2 - ln ?P1) * (h2 - h1) - h1) * m_dot / 1000"
    by blast
  from isobaric_leg_log [OF l23] obtain e23 where e23: "l3 = l2 @ e23" "length e23 = 80"
    by auto
  from expansion_leg_samples [OF l34 N] i obtain e34 where
    e34: "l4 = l3 @ e34" "length e34 = 60" "0 < ?Pe"
      "e34 ! i = PropsSI_query Prop_T Prop_P ?Pe Prop_H
                      (h3 - (ln ?P2 - ln ?Pe) / (ln ?P2 - ln ?P1) * (h3 - h4)) Air"
      "be (e34 ! i) = Inr (snd (HT_34 ! i) + 273.15)"
      "fst (HT_34 ! i) = (h3 - (ln ?P2 - ln ?Pe) / (ln ?P2 - ln ?P1) * (h3 - h4) - h1) * m_dot / 1000"
    by blast
  from isobaric_leg_log [OF l41] obtain e41 where e41: "qs' = l4 @ e41"
    by auto
  from for_each_length [OF l12] for_each_length [OF l34]
  have len: "length HT_12 = 60" "length HT_34 = 60" by simp_all
  have qs': "qs' = l1 @ e12 @ e23 @ e34 @ e41"
    using e12(1) e23(1) e34(1) e41 by simp
  have ic: "qs' ! (length qs + 10 + i) = e12 ! i"
    using i l1 e12(2) by (simp add: qs' nth_append)
  have ie: "qs' ! (length qs + 150 + i) = e34 ! i"
    using i l1 e12(2) e23(2) e34(2) by (simp add: qs' nth_append)
  have lc: "log_pressure_interp ?P1 ?P2 ((ln ?Pc - ln ?P1) / (ln ?P2 - ln ?P1)) = ?Pc"
    using P e12(3) by (intro log_pressure_interp_frac) simp_all
  have le: "log_pressure_interp ?P2 ?P1 ((ln ?P2 - ln ?Pe) / (ln ?P2 - ln ?P1)) = ?Pe"
    using P e34(3) by (intro log_pressure_interp_frac_rev) simp_all
  have A: "?Pc = log_pressure_interp ?P1 ?P2 ((ln ?Pc - ln ?P1) / (ln ?P2 - ln ?P1)) \<and>
      qs' ! (length qs + 10 + i) = PropsSI_query Prop_T Prop_P ?Pc Prop_H
          (linear_interp h1 h2 ((ln ?Pc - ln ?P1) / (ln ?P2 - ln ?P1))) Air \<and>
      be (PropsSI_query Prop_T Prop_P ?Pc Prop_H
          (linear_interp h1 h2 ((ln ?Pc - ln ?P1) / (ln ?P2 - ln ?P1))) Air) = Inr (leg_T g 0 ! i + 273.15) \<and>
      leg_H g 0 ! i = (linear_interp h1 h2 ((ln ?Pc - ln ?P1) / (ln ?P2 - ln ?P1)) - h1) * m_dot / 1000"
    using e12(4,5,6) ic lc i len by (simp add: linear_interp_def legs)
  have lin: "linear_interp h3 h4 f = h3 - f * (h3 - h4)" for f
    by (simp add: linear_interp_def algebra_simps)
  have B: "?Pe = log_pressure_interp ?P2 ?P1 ((ln ?P2 - ln ?Pe) / (ln ?P2 - ln ?P1)) \<and>
      qs' ! (length qs + 150 + i) = PropsSI_query Prop_T Prop_P ?Pe Prop_H
          (linear_interp h3 h4 ((ln ?P2 - ln ?Pe) / (ln ?P2 - ln ?P1))) Air \<and>
      be (PropsSI_query Prop_T Prop_P ?Pe Prop_H
          (linear_interp h3 h4 ((ln ?P2 - ln ?Pe) / (ln ?P2 - ln ?P1))) Air) = Inr (leg_T g 2 ! i + 273.15) \<and>
      leg_H g 2 ! i = (linear_interp h3 h4 ((ln ?P2 - ln ?Pe) / (ln ?P2 - ln ?P1)) - h1) * m_dot / 1000"
    using e34(4,5,6) ie le i len by (simp add: lin legs)
  from A B show ?thesis by (simp add: Let_def st)
qed


theorem leg_sampling_witness:
  "(let P1 = 101325; P2 = 101325 * 12;
              h1 = h_kJ (gas_cycle.states (projr (fst (calculate_gas_cycle_THdot toy_backend 12 25 1100 88 90 1 [])))) ! 0 * 1000;
              h2 = h_kJ (gas_cycle.states (projr (fst (calculate_gas_cycle_THdot toy_backend 12 25 1100 88 90 1 [])))) ! 1 * 1000;
              P_c = linspace P1 P2 60 ! 1;
              f_c = (ln P_c - ln P1) / (ln P2 - ln P1);
              h_c = linear_interp h1 h2 f_c
          in P_c = log_pressure_interp P1 P2 f_c \<and>
             (snd (calculate_gas_cycle_THdot toy_backend 12 25 1100 88 90 1 [])) ! (length ([] :: query list) + 10 + 1) = PropsSI_query Prop_T Prop_P P_c Prop_H h_c Air \<and>
             toy_backend (PropsSI_query Prop_T Prop_P P_c Prop_H h_c Air) = Inr (leg_T (projr (fst (calculate_gas_cycle_THdot toy_backend 12 25 1100 88 90 1 []))) 0 ! 1 + 273.15) \<and>
             leg_H (projr (fst (calculate_gas_cycle_THdot toy_backend 12 25 1100 88 90 1 []))) 0 ! 1 = (h_c - h1) * 1 / 1000) \<and>
         (let P1 = 101325; P2 = 101325 * 12;
              h1 = h_kJ (gas_cycle.states (projr (fst (calculate_gas_cycle_THdot toy_backend 12 25 1100 88 90 1 [])))) ! 0 * 1000;
              h3 = h_kJ (gas_cycle.states (projr (fst (calculate_gas_cycle_THdot toy_backend 12 25 1100 88 90 1 [])))) ! 2 * 1000;
              h4 = h_kJ (gas_cycle.states (projr (fst (calculate_gas_cycle_THdot toy_backend 12 25 1100 88 90 1 [])))) ! 3 * 1000;
              P_e = linspace P2 P1 60 ! 1;
              f_e = (ln P2 - ln P_e) / (ln P2 - ln P1);
              h_e = linear_interp h3 h4 f_e
          in P_e = log_pressure_interp P2 P1 f_e \<and>
             (snd (calculate_gas_cycle_THdot toy_backend 12 25 1100 88 90 1 [])) ! (length ([] :: query list) + 150 + 1) = PropsSI_query Prop_T Prop_P P_e Prop_H h_e Air \<and>
             toy_backend (PropsSI_query Prop_T Prop_P P_e Prop_H h_e Air) = Inr (leg_T (projr (fst (calculate_gas_cycle_THdot toy_backend 12 25 1100 88 90 1 []))) 2 ! 1 + 273.15) \<and>
             leg_H (projr (fst (calculate_gas_cycle_THdot toy_backend 12 25 1100 88 90 1 []))) 2 ! 1 = (h_e - h1) * 1 / 1000)"
proof -
  have run: "calculate_gas_cycle_THdot toy_backend 12 25 1100 88 90 1 [] =
      (Inr (projr (fst (calculate_gas_cycle_THdot toy_backend 12 25 1100 88 90 1 []))), (snd (calculate_gas_cycle_THdot toy_backend 12 25 1100 88 90 1 [])))"
    using toy_gas_default by (intro run_Inr) simp
  have i: "(1::nat) < 60" by simp
  show ?thesis by (rule leg_sampling [OF run i])
qed

theorem pressure_samples_evenly_spaced:
  "snd (calculate_gas_cycle_THdot toy_backend 12 25 1100 88 90 1 []) ! 11 =
     PropsSI_query Prop_T Prop_P (linspace 101325 (101325 * 12) 60 ! 1) Prop_H
       (298150 + (ln (linspace 101325 (101325 * 12) 60 ! 1) - ln 101325) / (ln (101325 * 12) - ln 101325)
          * (298150 + (409607.5 - 298150) / (88 / 100) - 298150)) Air \<and>
   linspace 101325 (101325 * 12) 60 ! 1 = 101325 + (101325 * 12 - 101325) / 59 \<and>
   linspace 101325 (101325 * 12) 60 ! 1 \<noteq> log_pressure_interp 101325 (101325 * 12) (1 / 59)"
proof (intro conjI)
  show "snd (calculate_gas_cycle_THdot toy_backend 12 25 1100 88 90 1 []) ! 11 =
     PropsSI_query Prop_T Prop_P (linspace 101325 (101325 * 12) 60 ! 1) Prop_H
       (298150 + (ln (linspace 101325 (101325 * 12) 60 ! 1) - ln 101325) / (ln (101325 * 12) - ln 101325)
          * (298150 + (409607.5 - 298150) / (88 / 100) - 298150)) Air"
    by (simp add: calculate_gas_cycle_THdot_def calculate_gas_cycle_THdot_N_def run_simps
        toy_backend_def nth_append)
  show lin: "linspace 101325 (101325 * 12) 60 ! 1 = 101325 + (101325 * 12 - 101325) / 59"
    using linspace_nth [of 60 1 101325 "101325 * 12"] by simp
  show "linspace 101325 (101325 * 12) 60 ! 1 \<noteq> log_pressure_interp 101325 (101325 * 12) (1 / 59)"
    using log_spacing_differs by (simp only: lin)
qed

end
